theory Spec2Isabelle
  imports Complex_Main "HOL-Library.Sublist"
begin

section \<open>The training driver \<open>wsl/run/train.py\<close>\<close>

text \<open>
  The driver is one Python function, \<open>main\<close>. This theory embeds it block by block, in
  the order of the source, with every raise of the source as an \<open>Inl\<close> value and every
  write to the file system as an event of a trace.

  What is outside the source is a parameter of the model (the record \<open>world\<close> below):
  the answer of the random-word service, the clock, the directory listing, Python's
  formatting of floats, the batch engine, the model factory and the checkpoint loader.
  Calls into these collaborators are taken to return; the exceptions modelled are the
  ones the source itself raises or catches. Losses and metrics are Python floats; they
  are modelled as reals, so the order the source compares them in is the order of the
  finite, non-NaN floats. Console output is not modelled.
\<close>

subsection \<open>Python values and exceptions\<close>

datatype pyval =
    PNone
  | PBool bool
  | PInt int
  | PFloat real
  | PStr string
  | PList "pyval list"
  | PDict "(string \<times> pyval) list"

text \<open>
  The exception classes the run can meet. All but \<open>KeyboardInterrupt\<close> derive from
  Python's \<open>Exception\<close>, which is what \<open>except Exception\<close> catches.
\<close>

datatype exn =
    TypeError
  | AssertionError
  | IndexError
  | KeyError
  | ValueError string
  | UnboundLocalError
  | ConnectionError
  | JSONDecodeError
  | KeyboardInterrupt

fun is_Exception :: "exn \<Rightarrow> bool" where
  "is_Exception KeyboardInterrupt = False"
| "is_Exception _ = True"

text \<open>\<open>xs[i]\<close> on a list: a negative index counts from the end, out of range raises.\<close>

definition list_getitem :: "'a list \<Rightarrow> int \<Rightarrow> exn + 'a" where
  "list_getitem xs i =
     (if 0 \<le> i \<and> i < int (length xs) then Inr (xs ! nat i)
      else if i < 0 \<and> - int (length xs) \<le> i then Inr (xs ! nat (int (length xs) + i))
      else Inl IndexError)"

text \<open>
  \<open>v[0]\<close> on a decoded JSON value. A JSON object has string keys only, so the key \<open>0\<close>
  is never present.
\<close>

fun getitem0 :: "pyval \<Rightarrow> exn + pyval" where
  "getitem0 (PList xs) = list_getitem xs 0"
| "getitem0 (PStr s) = (case s of [] \<Rightarrow> Inl IndexError | c # _ \<Rightarrow> Inr (PStr [c]))"
| "getitem0 (PDict _) = Inl KeyError"
| "getitem0 _ = Inl TypeError"

text \<open>\<open>'...' + v\<close>: only a \<open>str\<close> can be concatenated to a \<open>str\<close>.\<close>

fun str_concat :: "string \<Rightarrow> pyval \<Rightarrow> exn + string" where
  "str_concat s (PStr t) = Inr (s @ t)"
| "str_concat s _ = Inl TypeError"

text \<open>A local variable that may not have been assigned.\<close>

fun lookup_var :: "'a option \<Rightarrow> exn + 'a" where
  "lookup_var None = Inl UnboundLocalError"
| "lookup_var (Some v) = Inr v"

subsection \<open>Formatting\<close>

definition digit_char :: "nat \<Rightarrow> char" where
  "digit_char d = ''0123456789'' ! d"

fun str_nat :: "nat \<Rightarrow> string" where
  "str_nat n = (if n < 10 then [digit_char n] else str_nat (n div 10) @ [digit_char (n mod 10)])"

declare str_nat.simps [simp del]

definition str_int :: "int \<Rightarrow> string" where
  "str_int i = (if i < 0 then CHR ''-'' # str_nat (nat (- i)) else str_nat (nat i))"

text \<open>The fields of \<open>datetime.now()\<close> that the format \<open>%d_%m_%H_%M_%S\<close> reads.\<close>

record datetime =
  day :: nat
  month :: nat
  hour :: nat
  minute :: nat
  second :: nat

definition pad2 :: "nat \<Rightarrow> string" where
  "pad2 n = (if n < 10 then CHR ''0'' # str_nat n else str_nat n)"

definition strftime :: "datetime \<Rightarrow> string" where
  "strftime t =
     pad2 (day t) @ ''_'' @ pad2 (month t) @ ''_'' @ pad2 (hour t) @ ''_'' @
     pad2 (minute t) @ ''_'' @ pad2 (second t)"

subsection \<open>The parameters of \<open>main\<close>\<close>

text \<open>
  The fields carry the parameter names of the source; \<open>maps\<close> and \<open>k\<close> are suffixed,
  the first being a constant of the list library and the second a usual variable name.
\<close>

record args =
  debug :: bool
  data :: string
  col_name :: string
  extension :: string
  classes :: int
  network :: string
  depth :: int
  wildcat :: bool
  pretrained :: bool
  optim :: string
  resume :: bool
  name :: string
  lr :: real
  batchsize :: int
  workers :: int
  patience :: int
  balanced :: bool
  maps_arg :: int
  alpha :: real
  k_arg :: int
  regression :: bool
  error_range :: int

subsection \<open>The name token (lines 49 to 56)\<close>

record response =
  status_code :: int
  json :: "exn + pyval"

text \<open>
  The body of the \<open>try\<close>: the request, the assertion on the status and the first element
  of the decoded answer.
\<close>

definition try_word :: "exn + response \<Rightarrow> exn + pyval" where
  "try_word got =
     (case got of
        Inl e \<Rightarrow> Inl e
      | Inr r \<Rightarrow>
          if status_code r \<noteq> 200 then Inl AssertionError
          else (case json r of Inl e \<Rightarrow> Inl e | Inr j \<Rightarrow> getitem0 j))"

text \<open>\<open>try ... except Exception\<close>: the fallback is the date and time.\<close>

definition gen_mname :: "exn + response \<Rightarrow> datetime \<Rightarrow> exn + pyval" where
  "gen_mname got now =
     (case try_word got of
        Inr w \<Rightarrow> Inr w
      | Inl e \<Rightarrow> if is_Exception e then Inr (PStr (strftime now)) else Inl e)"

subsection \<open>The run name (lines 58 to 65)\<close>

definition wildcat_tag :: "(real \<Rightarrow> string) \<Rightarrow> args \<Rightarrow> string" where
  "wildcat_tag fmt a =
     ''_wildcat_maps'' @ str_int (maps_arg a) @ ''_alpha'' @ fmt (alpha a) @
     ''_k'' @ str_int (k_arg a)"

definition lr_tag :: "(real \<Rightarrow> string) \<Rightarrow> args \<Rightarrow> string" where
  "lr_tag fmt a =
     ''lr'' @ fmt (lr a) @ ''_bs'' @ str_int (batchsize a) @ ''_'' @ optim a"

definition fresh_full_mname :: "(real \<Rightarrow> string) \<Rightarrow> args \<Rightarrow> pyval \<Rightarrow> exn + string" where
  "fresh_full_mname fmt a tok =
     str_concat
       ((if debug a then ''debug_'' else []) @
        data a @ ''_'' @ col_name a @ ''_'' @
        lr_tag fmt a @
        (if pretrained a then ''_pre'' else []) @
        (if balanced a then ''_bal'' else []) @ ''_'' @
        (network a @ str_int (depth a)) @
        (if wildcat a then wildcat_tag fmt a else []) @ ''_'')
       tok"

subsection \<open>The checkpoint, the trace and the collaborators\<close>

datatype optimizer = SGD real real real | Adam real real real

datatype criterion = MSELoss | BCEWithLogitsLoss "real list option"

text \<open>
  The checkpoint dictionary. The type \<open>'m\<close> is what the framework holds behind the
  \<open>model\<close> entry and changes in place during a pass.
\<close>

record 'm checkpoint =
  model :: 'm
  optimizer :: optimizer
  criterion :: criterion
  epoch :: int
  loss :: real
  train_loss_all :: "real list"
  test_loss_all :: "real list"
  train_rmetric_all :: "real list"
  test_rmetric_all :: "real list"

text \<open>What a run writes, in the order it writes it; the last argument is the path.\<close>

datatype 'm event =
    Makedirs string
  | TorchSave "'m checkpoint" string
  | AppendText string string
  | Savefig "real list" "real list" "real list" "real list" string
  | JsonDump "(string \<times> pyval) list" string

text \<open>
  One pass of the engine over a loader, training or evaluating: the loss, the metric,
  the summary, and the framework state it leaves. The loaders, the batch size, the
  number of classes and the regression arguments are fixed during a run and are part
  of this function.
\<close>

type_synonym 'm engine = "bool \<Rightarrow> 'm checkpoint \<Rightarrow> (real \<times> real \<times> string) \<times> 'm"

record 'm world =
  requests_get :: "exn + response"
  now_start :: datetime
  now_end :: datetime
  glob :: "string \<Rightarrow> string list"
  str_float :: "real \<Rightarrow> string"
  pos_weight :: "real list"
  Architecture :: "args \<Rightarrow> 'm"
  torch_load :: "string \<Rightarrow> 'm checkpoint"
  engine :: "'m engine"

definition wsl_model_dir :: string where
  "wsl_model_dir = ''/mnt/out/models''"

text \<open>
  \<open>dir / name\<close> on paths. The normalisation \<open>pathlib\<close> does (an absolute right operand,
  repeated separators) is not modelled.
\<close>

definition path_join :: "string \<Rightarrow> string \<Rightarrow> string" where
  "path_join dir f = dir @ ''/'' @ f"

subsection \<open>Resolving the names (lines 45 to 68)\<close>

text \<open>
  \<open>Path.glob\<close> returns a generator, which has neither a length nor a subscript. The
  list constructor is what a hardened lookup would hold.
\<close>

datatype 'a pyiter = Generator "'a list" | ListOf "'a list"

fun py_len :: "'a pyiter \<Rightarrow> exn + int" where
  "py_len (Generator _) = Inl TypeError"
| "py_len (ListOf xs) = Inr (int (length xs))"

fun py_getitem :: "'a pyiter \<Rightarrow> int \<Rightarrow> exn + 'a" where
  "py_getitem (Generator _) i = Inl TypeError"
| "py_getitem (ListOf xs) i = list_getitem xs i"

definition Path_glob :: "(string \<Rightarrow> string list) \<Rightarrow> string \<Rightarrow> string pyiter" where
  "Path_glob matches pat = Generator (matches pat)"

text \<open>The local variables the first block assigns; \<open>None\<close> is a variable left unbound.\<close>

record locals =
  full_mname :: string
  mname :: "pyval option"
  model_dir :: "string option"

definition resume_names :: "(string \<Rightarrow> string pyiter) \<Rightarrow> args \<Rightarrow> exn + locals" where
  "resume_names globber a =
     (case py_len (globber (''*'' @ name a)) of
        Inl e \<Rightarrow> Inl e
      | Inr n \<Rightarrow>
          if n \<noteq> 1 then Inl AssertionError
          else (case py_getitem (globber (''*'' @ name a)) 0 of
                  Inl e \<Rightarrow> Inl e
                | Inr p \<Rightarrow> Inr \<lparr>full_mname = p, mname = None, model_dir = None\<rparr>))"

definition fresh_names :: "'m world \<Rightarrow> args \<Rightarrow> exn + locals" where
  "fresh_names w a =
     (case gen_mname (requests_get w) (now_start w) of
        Inl e \<Rightarrow> Inl e
      | Inr tok \<Rightarrow>
          (case fresh_full_mname (str_float w) a tok of
             Inl e \<Rightarrow> Inl e
           | Inr f \<Rightarrow>
               Inr \<lparr>full_mname = f, mname = Some tok,
                    model_dir = Some (path_join wsl_model_dir f)\<rparr>))"

definition resolve_names :: "'m world \<Rightarrow> args \<Rightarrow> exn + locals" where
  "resolve_names w a =
     (if resume a then resume_names (Path_glob (glob w)) a else fresh_names w a)"

subsection \<open>Creating the checkpoint (lines 109 to 143)\<close>

definition new_checkpoint :: "'m \<Rightarrow> optimizer \<Rightarrow> criterion \<Rightarrow> 'm checkpoint" where
  "new_checkpoint m opt crit =
     \<lparr>model = m, optimizer = opt, criterion = crit, epoch = 0, loss = 100,
      train_loss_all = [], test_loss_all = [], train_rmetric_all = [],
      test_rmetric_all = []\<rparr>"

definition create_checkpoint :: "'m world \<Rightarrow> args \<Rightarrow> exn + 'm checkpoint" where
  "create_checkpoint w a =
     (let crit = (if regression a then MSELoss
                  else if balanced a then BCEWithLogitsLoss (Some (pos_weight w))
                  else BCEWithLogitsLoss None);
          m = Architecture w a
      in if optim a = ''sgd'' then Inr (new_checkpoint m (SGD (lr a) 0.1 0.0001) crit)
         else if optim a = ''adam'' then Inr (new_checkpoint m (Adam (lr a) 0.9 0.999) crit)
         else Inl (ValueError (optim a @ '' is not supported'')))"

definition get_checkpoint :: "'m world \<Rightarrow> args \<Rightarrow> locals \<Rightarrow> exn + 'm checkpoint" where
  "get_checkpoint w a vars =
     (if resume a then Inr (torch_load w (path_join (full_mname vars) ''best.pt''))
      else create_checkpoint w a)"

text \<open>The bookkeeping of the loop: the checkpoint, the best epoch and loss, the trace.\<close>

record 'm loop_state =
  ckpt :: "'m checkpoint"
  best_epoch :: int
  best_loss :: real
  trace :: "'m event list"

definition init_loop :: "'m checkpoint \<Rightarrow> 'm loop_state" where
  "init_loop c = \<lparr>ckpt = c, best_epoch = epoch c, best_loss = loss c, trace = []\<rparr>"

subsection \<open>The epoch loop (lines 147 to 200)\<close>

definition continue_cond :: "int \<Rightarrow> 'm loop_state \<Rightarrow> bool" where
  "continue_cond pat s \<longleftrightarrow> epoch (ckpt s) - best_epoch s \<le> pat \<and> epoch (ckpt s) < 500"

text \<open>Lines 151 to 155 and 158 to 162: a pass, then the two appends.\<close>

definition train_pass :: "'m engine \<Rightarrow> 'm checkpoint \<Rightarrow> 'm checkpoint \<times> string" where
  "train_pass eng c =
     (case eng True c of
        ((l, r, summary_train), m) \<Rightarrow>
          (c\<lparr>model := m, loss := l,
             train_loss_all := train_loss_all c @ [l],
             train_rmetric_all := train_rmetric_all c @ [r]\<rparr>, summary_train))"

definition eval_pass :: "'m engine \<Rightarrow> 'm checkpoint \<Rightarrow> 'm checkpoint \<times> string" where
  "eval_pass eng c =
     (case eng False c of
        ((l, r, summary_test), m) \<Rightarrow>
          (c\<lparr>model := m, loss := l,
             test_loss_all := test_loss_all c @ [l],
             test_rmetric_all := test_rmetric_all c @ [r]\<rparr>, summary_test))"

text \<open>The checkpoint after the increment and the two passes of one epoch.\<close>

definition epoch_passes :: "'m engine \<Rightarrow> 'm checkpoint \<Rightarrow> 'm checkpoint" where
  "epoch_passes eng c = fst (eval_pass eng (fst (train_pass eng (c\<lparr>epoch := epoch c + 1\<rparr>))))"

definition summary_block :: "int \<Rightarrow> string \<Rightarrow> string \<Rightarrow> string" where
  "summary_block e summary_train summary_test =
     ''Epoch: '' @ str_int e @ '' '' @ [CHR 0x0A] @ '' Train:'' @ summary_train @
     '' '' @ [CHR 0x0A] @ '' Test:'' @ summary_test"

text \<open>What one epoch writes, given the best loss before it (lines 164 to 192).\<close>

definition epoch_events :: "'m engine \<Rightarrow> string \<Rightarrow> 'm loop_state \<Rightarrow> 'm event list" where
  "epoch_events eng dir s =
     (let c0 = (ckpt s)\<lparr>epoch := epoch (ckpt s) + 1\<rparr>;
          t = train_pass eng c0;
          v = eval_pass eng (fst t);
          c = fst v
      in [Makedirs dir, TorchSave c (path_join dir ''current.pt'')] @
         (if best_loss s > loss c then [TorchSave c (path_join dir ''best.pt'')] else []) @
         [AppendText (summary_block (epoch c) (snd t) (snd v)) (path_join dir ''summary.txt''),
          Savefig (train_loss_all c) (test_loss_all c) (train_rmetric_all c)
            (test_rmetric_all c) (path_join dir ''graphs.png'')])"

definition epoch_step :: "'m engine \<Rightarrow> string \<Rightarrow> 'm loop_state \<Rightarrow> 'm loop_state" where
  "epoch_step eng dir s =
     (let c = epoch_passes eng (ckpt s)
      in \<lparr>ckpt = c,
          best_epoch = (if best_loss s > loss c then epoch c else best_epoch s),
          best_loss = (if best_loss s > loss c then loss c else best_loss s),
          trace = trace s @ epoch_events eng dir s\<rparr>)"

text \<open>The body uses \<open>model_dir\<close> first at line 164, after the two passes.\<close>

definition epoch_body :: "'m engine \<Rightarrow> string option \<Rightarrow> 'm loop_state \<Rightarrow> exn + 'm loop_state" where
  "epoch_body eng md s =
     (case lookup_var md of Inl e \<Rightarrow> Inl e | Inr dir \<Rightarrow> Inr (epoch_step eng dir s))"

function epoch_loop ::
  "'m engine \<Rightarrow> bool \<Rightarrow> int \<Rightarrow> string option \<Rightarrow> 'm loop_state \<Rightarrow> exn + 'm loop_state" where
  "epoch_loop eng dbg pat md s =
     (if continue_cond pat s then
        (case epoch_body eng md s of
           Inl e \<Rightarrow> Inl e
         | Inr s' \<Rightarrow> if dbg then Inr s' else epoch_loop eng dbg pat md s')
      else Inr s)"
  by pat_completeness auto

termination
proof (relation "measure (\<lambda>(eng, dbg, pat, md, s). nat (500 - epoch (ckpt s)))")
  show "wf (measure (\<lambda>(eng :: 'm engine, dbg :: bool, pat :: int, md :: string option,
                       s :: 'm loop_state). nat (500 - epoch (ckpt s))))"
    by simp
next
  fix eng :: "'m engine" and dbg :: bool and pat :: int and md :: "string option"
    and s s' :: "'m loop_state"
  assume c: "continue_cond pat s" and b: "epoch_body eng md s = Inr s'"
  from b obtain dir where "s' = epoch_step eng dir s"
    by (cases md) (auto simp: epoch_body_def)
  then have "epoch (ckpt s') = epoch (ckpt s) + 1"
    by (simp add: epoch_step_def Let_def epoch_passes_def eval_pass_def train_pass_def
        split: prod.splits)
  with c show "((eng, dbg, pat, md, s'), (eng, dbg, pat, md, s))
        \<in> measure (\<lambda>(eng, dbg, pat, md, s). nat (500 - epoch (ckpt s)))"
    by (simp add: continue_cond_def)
qed

declare epoch_loop.simps [simp del]

subsection \<open>The final record and \<open>main\<close> (lines 202 to 227)\<close>

definition build_configs ::
  "args \<Rightarrow> pyval \<Rightarrow> datetime \<Rightarrow> 'm loop_state \<Rightarrow> exn + (string \<times> pyval) list" where
  "build_configs a tok now s =
     (case list_getitem (test_rmetric_all (ckpt s)) (best_epoch s - 1) of
        Inl e \<Rightarrow> Inl e
      | Inr r \<Rightarrow>
          Inr [(''name'', tok),
               (''time'', PStr (strftime now)),
               (''data'', PStr (data a)),
               (''column'', PStr (col_name a)),
               (''extension'', PStr (extension a)),
               (''classes'', PInt (classes a)),
               (''network'', PStr (network a)),
               (''depth'', PInt (depth a)),
               (''wildcat'', PBool (wildcat a)),
               (''pretrained'', PBool (pretrained a)),
               (''optim'', PStr (optim a)),
               (''learning_rate'', PFloat (lr a)),
               (''batchsize'', PInt (batchsize a)),
               (''balanced'', PBool (balanced a)),
               (''maps'', if wildcat a then PInt (maps_arg a) else PNone),
               (''alpha'', if wildcat a then PFloat (alpha a) else PNone),
               (''k'', if wildcat a then PInt (k_arg a) else PNone),
               (''regression'', PBool (regression a)),
               (''error_range'', if regression a then PInt (error_range a) else PNone),
               (''best_epoch'', PInt (best_epoch s)),
               (''best_loss'', PFloat (best_loss s)),
               (''rmetric'', PFloat r)])"

text \<open>
  \<open>main\<close>: the trace of what was written and how the run ended. The name token is read
  at line 68, before the loaders; \<open>model_dir\<close> is read in the loop body and at line 226.
  The loop can fail only in its first body, on an unbound \<open>model_dir\<close> and before its
  first write, so a failed loop leaves an empty trace.
\<close>

definition main :: "'m world \<Rightarrow> args \<Rightarrow> 'm event list \<times> (exn + unit)" where
  "main w a =
     (case resolve_names w a of
        Inl e \<Rightarrow> ([], Inl e)
      | Inr vars \<Rightarrow>
     (case lookup_var (mname vars) of
        Inl e \<Rightarrow> ([], Inl e)
      | Inr tok \<Rightarrow>
     (case get_checkpoint w a vars of
        Inl e \<Rightarrow> ([], Inl e)
      | Inr c \<Rightarrow>
     (case epoch_loop (engine w) (debug a) (patience a) (model_dir vars) (init_loop c) of
        Inl e \<Rightarrow> ([], Inl e)
      | Inr s \<Rightarrow>
     (case build_configs a tok (now_end w) s of
        Inl e \<Rightarrow> (trace s, Inl e)
      | Inr configs \<Rightarrow>
     (case lookup_var (model_dir vars) of
        Inl e \<Rightarrow> (trace s, Inl e)
      | Inr dir \<Rightarrow>
          (trace s @ [JsonDump configs (path_join dir ''configs.json'')], Inr ())))))))"

subsection \<open>The run name in the words of the specification\<close>

text \<open>
  The specification lists the components of the run name in a fixed order, the optional
  ones present when enabled. This second definition follows that list; it is compared
  with \<open>fresh_full_mname\<close>, which follows the source.
\<close>

definition opt_tag :: "bool \<Rightarrow> string \<Rightarrow> string" where
  "opt_tag enabled t = (if enabled then t else [])"

definition spec_run_name :: "(real \<Rightarrow> string) \<Rightarrow> args \<Rightarrow> string \<Rightarrow> string" where
  "spec_run_name fmt a tok =
     concat
       [opt_tag (debug a) ''debug_'',
        data a, ''_'',
        col_name a, ''_'',
        ''lr'' @ fmt (lr a) @ ''_bs'' @ str_int (batchsize a) @ ''_'' @ optim a,
        opt_tag (pretrained a) ''_pre'',
        opt_tag (balanced a) ''_bal'', ''_'',
        network a @ str_int (depth a),
        opt_tag (wildcat a)
          (''_wildcat_maps'' @ str_int (maps_arg a) @ ''_alpha'' @ fmt (alpha a) @
           ''_k'' @ str_int (k_arg a)), ''_'',
        tok]"

subsection \<open>A concrete run\<close>

text \<open>
  A world and an argument record on which the properties below are evaluated. The
  engine's evaluation loss is a function of the epoch it is called in; the float
  formatter answers as Python does on the two floats used, \<open>0.001\<close> and \<open>0.7\<close>.
\<close>

definition demo_time :: datetime where
  "demo_time = \<lparr>day = 4, month = 11, hour = 9, minute = 3, second = 7\<rparr>"

definition demo_response :: "exn + response" where
  "demo_response = Inr \<lparr>status_code = 200, json = Inr (PList [PStr ''apple''])\<rparr>"

definition demo_str_float :: "real \<Rightarrow> string" where
  "demo_str_float r = (if r = 0.7 then ''0.7'' else ''0.001'')"

definition demo_engine :: "(int \<Rightarrow> real) \<Rightarrow> unit engine" where
  "demo_engine f is_train c =
     ((if is_train then 1 else f (epoch c), 0.25, if is_train then ''t'' else ''v''), model c)"

definition demo_world :: "(int \<Rightarrow> real) \<Rightarrow> unit world" where
  "demo_world f =
     \<lparr>requests_get = demo_response, now_start = demo_time, now_end = demo_time,
      glob = (\<lambda>pat. [''/mnt/out/models/rsna_Pneumonia_lr0.001_bs64_adam_densenet121_apple'']),
      str_float = demo_str_float, pos_weight = [],
      Architecture = (\<lambda>a. ()),
      torch_load = (\<lambda>p. new_checkpoint () (Adam 0.001 0.9 0.999) (BCEWithLogitsLoss None)),
      engine = demo_engine f\<rparr>"

definition demo_args :: args where
  "demo_args =
     \<lparr>debug = False, data = ''rsna'', col_name = ''Pneumonia'', extension = ''dcm'',
      classes = 1, network = ''densenet'', depth = 121, wildcat = False,
      pretrained = False, optim = ''adam'', resume = False, name = ''apple'',
      lr = 0.001, batchsize = 64, workers = 4, patience = 0, balanced = False,
      maps_arg = 1, alpha = 0.7, k_arg = 1, regression = False, error_range = 4\<rparr>"

definition demo_checkpoint :: "unit checkpoint" where
  "demo_checkpoint = new_checkpoint () (Adam 0.001 0.9 0.999) (BCEWithLogitsLoss None)"

definition improving_then_worse :: "int \<Rightarrow> real" where
  "improving_then_worse e = (if e = 1 then 0.5 else 0.6)"

definition never_improving :: "int \<Rightarrow> real" where
  "never_improving e = 150"

definition demo_dir :: string where
  "demo_dir = ''/mnt/out/models/rsna_Pneumonia_lr0.001_bs64_adam_densenet121_apple''"

definition demo_debug_dir :: string where
  "demo_debug_dir =
     ''/mnt/out/models/debug_rsna_Pneumonia_lr0.001_bs64_adam_densenet121_apple''"

definition demo_locals :: "bool \<Rightarrow> locals" where
  "demo_locals d =
     \<lparr>full_mname = (if d then ''debug_'' else []) @
        ''rsna_Pneumonia_lr0.001_bs64_adam_densenet121_apple'',
      mname = Some (PStr ''apple''),
      model_dir = Some (if d then demo_debug_dir else demo_dir)\<rparr>"

subsection \<open>Reading a trace\<close>

text \<open>The path an event writes to, and whether it is the write of the final record.\<close>

fun event_path :: "'m event \<Rightarrow> string" where
  "event_path (Makedirs p) = p"
| "event_path (TorchSave c p) = p"
| "event_path (AppendText t p) = p"
| "event_path (Savefig a b c d p) = p"
| "event_path (JsonDump c p) = p"

fun is_JsonDump :: "'m event \<Rightarrow> bool" where
  "is_JsonDump (JsonDump c p) = True"
| "is_JsonDump _ = False"

text \<open>
  The bookkeeping the final lookup relies on: the best epoch lies between \<open>0\<close> and the
  current epoch, and the test-metric history has one entry per epoch.
\<close>

definition history_ok :: "'m loop_state \<Rightarrow> bool" where
  "history_ok t \<longleftrightarrow>
     0 \<le> best_epoch t \<and> best_epoch t \<le> epoch (ckpt t) \<and>
     int (length (test_rmetric_all (ckpt t))) = epoch (ckpt t)"

section \<open>Properties\<close>

subsection \<open>Basic facts\<close>

lemma epoch_epoch_passes: "epoch (epoch_passes eng c) = epoch c + 1"
  by (simp add: epoch_passes_def eval_pass_def train_pass_def split: prod.splits)

lemma epoch_epoch_step: "epoch (ckpt (epoch_step eng dir s)) = epoch (ckpt s) + 1"
  by (simp add: epoch_step_def Let_def epoch_epoch_passes)

lemma epoch_body_Inr:
  "epoch_body eng md s = Inr s' \<Longrightarrow> epoch (ckpt s') = epoch (ckpt s) + 1"
  by (cases md) (auto simp: epoch_body_def epoch_epoch_step)

lemma epoch_body_Some: "epoch_body eng (Some dir) s = Inr (epoch_step eng dir s)"
  by (simp add: epoch_body_def)

lemma epoch_loop_Some:
  "epoch_loop eng dbg pat (Some dir) s =
     (if continue_cond pat s then
        (if dbg then Inr (epoch_step eng dir s)
         else epoch_loop eng dbg pat (Some dir) (epoch_step eng dir s))
      else Inr s)"
  by (subst epoch_loop.simps) (simp add: epoch_body_Some)

lemma epoch_loop_debug:
  "epoch_loop eng True pat (Some dir) s =
     Inr (if continue_cond pat s then epoch_step eng dir s else s)"
  by (subst epoch_loop_Some) simp

lemma epoch_loop_iterates:
  "\<exists>n. epoch_loop eng False pat (Some dir) s = Inr ((epoch_step eng dir ^^ n) s) \<and>
       (\<forall>i<n. continue_cond pat ((epoch_step eng dir ^^ i) s)) \<and>
       \<not> continue_cond pat ((epoch_step eng dir ^^ n) s)"
proof (induction eng "False" pat "Some dir" s rule: epoch_loop.induct)
  case (1 eng pat s)
  show ?case
  proof (cases "continue_cond pat s")
    case False
    then have "epoch_loop eng False pat (Some dir) s = Inr ((epoch_step eng dir ^^ 0) s)"
      by (subst epoch_loop_Some) simp
    with False show ?thesis by (intro exI[of _ 0]) simp
  next
    case True
    let ?s' = "epoch_step eng dir s"
    from 1[OF True epoch_body_Some] obtain n where
      n: "epoch_loop eng False pat (Some dir) ?s' = Inr ((epoch_step eng dir ^^ n) ?s')"
        "\<forall>i<n. continue_cond pat ((epoch_step eng dir ^^ i) ?s')"
        "\<not> continue_cond pat ((epoch_step eng dir ^^ n) ?s')"
      by auto
    have "epoch_loop eng False pat (Some dir) s = Inr ((epoch_step eng dir ^^ Suc n) s)"
      using True n(1) by (subst epoch_loop_Some) (simp add: funpow_swap1)
    moreover have "\<forall>i<Suc n. continue_cond pat ((epoch_step eng dir ^^ i) s)"
    proof (intro allI impI)
      fix i assume "i < Suc n"
      then show "continue_cond pat ((epoch_step eng dir ^^ i) s)"
        using True n(2) by (cases i) (auto simp: funpow_swap1)
    qed
    moreover have "\<not> continue_cond pat ((epoch_step eng dir ^^ Suc n) s)"
      using n(3) by (simp add: funpow_swap1)
    ultimately show ?thesis by blast
  qed
qed

lemma epoch_loop_Inl:
  "epoch_loop eng dbg pat md s = Inl e \<Longrightarrow> e = UnboundLocalError \<and> md = None"
proof (induction eng dbg pat md s rule: epoch_loop.induct)
  case (1 eng dbg pat md s)
  from "1.prems" show ?case
    apply (subst (asm) epoch_loop.simps)
    apply (cases md)
     apply (auto simp: epoch_body_def split: if_splits sum.splits dest: "1.IH")
    done
qed

lemma str_nat_simps:
  "n < 10 \<Longrightarrow> str_nat n = [digit_char n]"
  "\<not> n < 10 \<Longrightarrow> str_nat n = str_nat (n div 10) @ [digit_char (n mod 10)]"
  by (subst str_nat.simps, simp)+


lemma fresh_names_Inr:
  "fresh_names w a = Inr vars \<Longrightarrow> \<exists>tok dir. mname vars = Some tok \<and> model_dir vars = Some dir"
  by (auto simp: fresh_names_def split: sum.splits)

lemma resume_glob_TypeError: "resume_names (Path_glob matches) a = Inl TypeError"
  by (simp add: resume_names_def Path_glob_def)

lemma main_resume: "resume a \<Longrightarrow> main w a = ([], Inl TypeError)"
  by (simp add: main_def resolve_names_def resume_glob_TypeError)

lemma gen_mname_Inl: "gen_mname got now = Inl e \<Longrightarrow> e = KeyboardInterrupt"
  by (cases e) (auto simp: gen_mname_def split: sum.splits if_splits)

lemma fresh_full_mname_Inl: "fresh_full_mname fmt a tok = Inl e \<Longrightarrow> e = TypeError"
  by (cases tok) (auto simp: fresh_full_mname_def)

lemma resolve_names_Inl:
  "resolve_names w a = Inl e \<Longrightarrow> e = TypeError \<or> e = KeyboardInterrupt"
proof (cases "resume a")
  case True
  assume "resolve_names w a = Inl e"
  with True show ?thesis by (simp add: resolve_names_def resume_glob_TypeError)
next
  case False
  assume "resolve_names w a = Inl e"
  with False have "fresh_names w a = Inl e" by (simp add: resolve_names_def)
  then show ?thesis
    by (auto simp: fresh_names_def split: sum.splits
        dest: gen_mname_Inl fresh_full_mname_Inl)
qed

lemma build_configs_Inl: "build_configs a tok now s = Inl e \<Longrightarrow> e = IndexError"
  by (auto simp: build_configs_def list_getitem_def split: sum.splits if_splits)

lemma lookup_var_Inl: "lookup_var x = Inl e \<Longrightarrow> e = UnboundLocalError"
  by (cases x) simp_all

lemma main_Inl:
  assumes "snd (main w a) = Inl e"
  shows "e \<in> {TypeError, KeyboardInterrupt, UnboundLocalError, IndexError} \<or>
         (\<exists>vars. get_checkpoint w a vars = Inl e)"
proof (cases "resolve_names w a")
  case (Inl x)
  with assms have "x = e" by (simp add: main_def)
  with Inl resolve_names_Inl [of w a e] show ?thesis by auto
next
  case (Inr vars)
  note names = this
  show ?thesis
  proof (cases "lookup_var (mname vars)")
    case (Inl x)
    with assms names have "x = e" by (simp add: main_def)
    with Inl lookup_var_Inl [of "mname vars" e] show ?thesis by auto
  next
    case (Inr tok)
    note tok = this
    show ?thesis
    proof (cases "get_checkpoint w a vars")
      case (Inl x)
      with assms names tok have "x = e" by (simp add: main_def)
      with Inl show ?thesis by auto
    next
      case (Inr c)
      note c = this
      show ?thesis
      proof (cases "epoch_loop (engine w) (debug a) (patience a) (model_dir vars) (init_loop c)")
        case (Inl x)
        with assms names tok c have "x = e" by (simp add: main_def)
        with Inl epoch_loop_Inl show ?thesis by fastforce
      next
        case (Inr s)
        note s = this
        show ?thesis
        proof (cases "build_configs a tok (now_end w) s")
          case (Inl x)
          with assms names tok c s have "x = e" by (simp add: main_def)
          with Inl build_configs_Inl show ?thesis by fastforce
        next
          case (Inr cfg)
          with assms names tok c s show ?thesis
            by (cases "model_dir vars") (simp_all add: main_def)
        qed
      qed
    qed
  qed
qed

lemma main_not_ValueError:
  assumes "optim a = ''sgd'' \<or> optim a = ''adam''"
  shows "snd (main w a) \<noteq> Inl (ValueError msg)"
proof
  assume "snd (main w a) = Inl (ValueError msg)"
  from main_Inl [OF this] obtain vars where "get_checkpoint w a vars = Inl (ValueError msg)"
    by auto
  with assms show False
    by (auto simp: get_checkpoint_def create_checkpoint_def Let_def split: if_splits)
qed

lemma demo_names:
  "resolve_names (demo_world f) (demo_args\<lparr>optim := opt\<rparr>) =
     Inr \<lparr>full_mname = ''rsna_Pneumonia_lr0.001_bs64_'' @ opt @ ''_densenet121_apple'',
          mname = Some (PStr ''apple''),
          model_dir = Some (''/mnt/out/models/rsna_Pneumonia_lr0.001_bs64_'' @ opt @ ''_densenet121_apple'')\<rparr>"
  by (simp add: resolve_names_def fresh_names_def demo_world_def demo_args_def gen_mname_def
      try_word_def demo_response_def list_getitem_def fresh_full_mname_def lr_tag_def
      demo_str_float_def str_int_def str_nat_simps digit_char_def path_join_def wsl_model_dir_def)

lemma train_pass_fields:
  "epoch (fst (train_pass eng c)) = epoch c"
  "test_loss_all (fst (train_pass eng c)) = test_loss_all c"
  "test_rmetric_all (fst (train_pass eng c)) = test_rmetric_all c"
  "train_loss_all (fst (train_pass eng c)) = train_loss_all c @ [fst (fst (eng True c))]"
  "train_rmetric_all (fst (train_pass eng c)) = train_rmetric_all c @ [fst (snd (fst (eng True c)))]"
  by (simp_all add: train_pass_def split: prod.splits)

lemma eval_pass_fields:
  "epoch (fst (eval_pass eng c)) = epoch c"
  "loss (fst (eval_pass eng c)) = fst (fst (eng False c))"
  "train_loss_all (fst (eval_pass eng c)) = train_loss_all c"
  "train_rmetric_all (fst (eval_pass eng c)) = train_rmetric_all c"
  "test_loss_all (fst (eval_pass eng c)) = test_loss_all c @ [fst (fst (eng False c))]"
  "test_rmetric_all (fst (eval_pass eng c)) = test_rmetric_all c @ [fst (snd (fst (eng False c)))]"
  by (simp_all add: eval_pass_def split: prod.splits)

lemma epoch_passes_fields:
  "train_loss_all (epoch_passes eng c) =
     train_loss_all c @ [fst (fst (eng True (c\<lparr>epoch := epoch c + 1\<rparr>)))]"
  "train_rmetric_all (epoch_passes eng c) =
     train_rmetric_all c @ [fst (snd (fst (eng True (c\<lparr>epoch := epoch c + 1\<rparr>))))]"
  "test_loss_all (epoch_passes eng c) = test_loss_all c @ [loss (epoch_passes eng c)]"
  "test_rmetric_all (epoch_passes eng c) =
     test_rmetric_all c @
       [fst (snd (fst (eng False (fst (train_pass eng (c\<lparr>epoch := epoch c + 1\<rparr>))))))]"
  "loss (epoch_passes eng c) =
     fst (fst (eng False (fst (train_pass eng (c\<lparr>epoch := epoch c + 1\<rparr>)))))"
  by (simp_all add: epoch_passes_def eval_pass_fields train_pass_fields)

lemma epoch_step_simps:
  "ckpt (epoch_step eng dir s) = epoch_passes eng (ckpt s)"
  "best_loss (epoch_step eng dir s) =
     (if best_loss s > loss (epoch_passes eng (ckpt s)) then loss (epoch_passes eng (ckpt s))
      else best_loss s)"
  "best_epoch (epoch_step eng dir s) =
     (if best_loss s > loss (epoch_passes eng (ckpt s)) then epoch (ckpt s) + 1
      else best_epoch s)"
  "trace (epoch_step eng dir s) = trace s @ epoch_events eng dir s"
  by (simp_all add: epoch_step_def Let_def epoch_epoch_passes)

lemma epoch_events_eq:
  "epoch_events eng dir s =
     [Makedirs dir, TorchSave (epoch_passes eng (ckpt s)) (path_join dir ''current.pt'')] @
     (if best_loss s > loss (epoch_passes eng (ckpt s))
      then [TorchSave (epoch_passes eng (ckpt s)) (path_join dir ''best.pt'')] else []) @
     [AppendText
        (summary_block (epoch (ckpt s) + 1)
           (snd (train_pass eng ((ckpt s)\<lparr>epoch := epoch (ckpt s) + 1\<rparr>)))
           (snd (eval_pass eng (fst (train_pass eng ((ckpt s)\<lparr>epoch := epoch (ckpt s) + 1\<rparr>))))))
        (path_join dir ''summary.txt''),
      Savefig (train_loss_all (epoch_passes eng (ckpt s)))
        (test_loss_all (epoch_passes eng (ckpt s)))
        (train_rmetric_all (epoch_passes eng (ckpt s)))
        (test_rmetric_all (epoch_passes eng (ckpt s))) (path_join dir ''graphs.png'')]"
  unfolding epoch_events_def Let_def epoch_passes_def [symmetric]
  using epoch_epoch_passes [of eng "ckpt s"] by (simp add: epoch_passes_def)

lemma iterates_lengths:
  "epoch (ckpt ((epoch_step eng dir ^^ n) s)) = epoch (ckpt s) + int n \<and>
   length (train_loss_all (ckpt ((epoch_step eng dir ^^ n) s))) =
     length (train_loss_all (ckpt s)) + n \<and>
   length (test_loss_all (ckpt ((epoch_step eng dir ^^ n) s))) =
     length (test_loss_all (ckpt s)) + n \<and>
   length (train_rmetric_all (ckpt ((epoch_step eng dir ^^ n) s))) =
     length (train_rmetric_all (ckpt s)) + n \<and>
   length (test_rmetric_all (ckpt ((epoch_step eng dir ^^ n) s))) =
     length (test_rmetric_all (ckpt s)) + n"
proof (induction n)
  case 0
  show ?case by simp
next
  case (Suc n)
  let ?t = "(epoch_step eng dir ^^ n) s"
  have "length (test_loss_all (epoch_passes eng (ckpt ?t))) = length (test_loss_all (ckpt ?t)) + 1"
    by (subst epoch_passes_fields) simp
  with Suc show ?case
    by (simp add: epoch_step_simps epoch_epoch_passes epoch_passes_fields(1,2,4))
qed

lemma loop_result_iterate:
  "\<exists>n. epoch_loop eng dbg pat (Some dir) s = Inr ((epoch_step eng dir ^^ n) s) \<and>
       (continue_cond pat s \<longrightarrow> 1 \<le> n) \<and> (dbg \<longrightarrow> n \<le> 1)"
proof (cases dbg)
  case True
  show ?thesis
  proof (cases "continue_cond pat s")
    case c: True
    with True have "epoch_loop eng dbg pat (Some dir) s = Inr ((epoch_step eng dir ^^ 1) s)"
      by (simp add: epoch_loop_debug)
    then show ?thesis by (intro exI [of _ 1]) simp
  next
    case c: False
    with True have "epoch_loop eng dbg pat (Some dir) s = Inr ((epoch_step eng dir ^^ 0) s)"
      by (simp add: epoch_loop_debug)
    with c show ?thesis by (intro exI [of _ 0]) simp
  qed
next
  case False
  from epoch_loop_iterates [of eng pat dir s] obtain n where
    n: "epoch_loop eng False pat (Some dir) s = Inr ((epoch_step eng dir ^^ n) s)"
      "\<not> continue_cond pat ((epoch_step eng dir ^^ n) s)"
    by blast
  have "1 \<le> n" if "continue_cond pat s"
  proof (rule ccontr)
    assume "\<not> 1 \<le> n"
    then have "n = 0" by simp
    with n(2) that show False by simp
  qed
  with n(1) False show ?thesis by auto
qed

lemma eval_loss_seen:
  "\<exists>c. epoch c = epoch (ckpt s) + 1 \<and>
       loss (ckpt (epoch_step eng dir s)) = fst (fst (eng False c))"
proof -
  let ?c = "fst (train_pass eng ((ckpt s)\<lparr>epoch := epoch (ckpt s) + 1\<rparr>))"
  have "epoch ?c = epoch (ckpt s) + 1" by (simp add: train_pass_fields)
  moreover have "loss (ckpt (epoch_step eng dir s)) = fst (fst (eng False ?c))"
    by (simp add: epoch_step_simps epoch_passes_fields)
  ultimately show ?thesis by blast
qed

lemma test_loss_step:
  "test_loss_all (ckpt (epoch_step eng dir s)) =
     test_loss_all (ckpt s) @ [loss (ckpt (epoch_step eng dir s))]"
  by (simp add: epoch_step_simps(1) epoch_passes_fields(3))

lemma fresh_init:
  "epoch (ckpt (init_loop (new_checkpoint m opt crit))) = 0"
  "best_epoch (init_loop (new_checkpoint m opt crit)) = 0"
  "best_loss (init_loop (new_checkpoint m opt crit)) = 100"
  "trace (init_loop (new_checkpoint m opt crit)) = []"
  "train_loss_all (ckpt (init_loop (new_checkpoint m opt crit))) = []"
  "test_loss_all (ckpt (init_loop (new_checkpoint m opt crit))) = []"
  "train_rmetric_all (ckpt (init_loop (new_checkpoint m opt crit))) = []"
  "test_rmetric_all (ckpt (init_loop (new_checkpoint m opt crit))) = []"
  by (simp_all add: init_loop_def new_checkpoint_def)

lemma patience0_scenario:
  assumes e1: "\<And>c. epoch c = 1 \<Longrightarrow> fst (fst (eng False c)) = l1"
    and e2: "\<And>c. epoch c = 2 \<Longrightarrow> fst (fst (eng False c)) = l2"
    and l1: "l1 < 100" and l2: "l1 \<le> l2"
  shows "\<exists>s'. epoch_loop eng False 0 (Some dir) (init_loop (new_checkpoint m opt crit)) = Inr s' \<and>
      epoch (ckpt s') = 2 \<and> best_epoch s' = 1 \<and> best_loss s' = l1 \<and>
      test_loss_all (ckpt s') = [l1, l2]"
proof -
  let ?s0 = "init_loop (new_checkpoint m opt crit)"
  let ?s1 = "epoch_step eng dir ?s0"
  let ?s2 = "epoch_step eng dir ?s1"
  have ep1: "epoch (ckpt ?s1) = 1" by (simp add: epoch_epoch_step fresh_init)
  have ep2: "epoch (ckpt ?s2) = 2" by (simp add: epoch_epoch_step fresh_init)
  from eval_loss_seen [of ?s0 eng dir] e1 have lo1: "loss (ckpt ?s1) = l1"
    by (auto simp: fresh_init)
  from eval_loss_seen [of ?s1 eng dir] e2 have lo2: "loss (ckpt ?s2) = l2"
    by (auto simp: ep1)
  have lo1': "loss (epoch_passes eng (ckpt ?s0)) = l1"
    using lo1 by (simp add: epoch_step_simps)
  have lo2': "loss (epoch_passes eng (ckpt ?s1)) = l2"
    using lo2 by (simp add: epoch_step_simps(1))
  have b1: "best_loss ?s1 = l1" "best_epoch ?s1 = 1"
    using l1 lo1' by (simp_all add: epoch_step_simps(2,3) fresh_init)
  have b2: "best_loss ?s2 = l1" "best_epoch ?s2 = 1"
    using l2 lo2' b1 by (simp_all add: epoch_step_simps(2,3))
  have t1: "test_loss_all (ckpt ?s1) = [l1]"
    by (subst test_loss_step) (simp add: lo1 fresh_init)
  have t2: "test_loss_all (ckpt ?s2) = [l1, l2]"
    by (subst test_loss_step) (simp add: lo2 t1)
  have c0: "continue_cond 0 ?s0" by (simp add: continue_cond_def fresh_init)
  have c1: "continue_cond 0 ?s1" by (simp add: continue_cond_def ep1 b1)
  have c2: "\<not> continue_cond 0 ?s2" by (simp add: continue_cond_def ep2 b2)
  have "epoch_loop eng False 0 (Some dir) ?s2 = Inr ?s2"
    using c2 by (subst epoch_loop_Some) simp
  then have "epoch_loop eng False 0 (Some dir) ?s1 = Inr ?s2"
    using c1 by (subst epoch_loop_Some) simp
  then have "epoch_loop eng False 0 (Some dir) ?s0 = Inr ?s2"
    using c0 by (subst epoch_loop_Some) simp
  with ep2 b2 t2 show ?thesis by blast
qed

lemma passes_see_increment:
  "\<exists>c0 c1. epoch c0 = epoch (ckpt s) + 1 \<and> epoch c1 = epoch (ckpt s) + 1 \<and>
     train_loss_all (ckpt (epoch_step eng dir s)) =
       train_loss_all (ckpt s) @ [fst (fst (eng True c0))] \<and>
     test_loss_all (ckpt (epoch_step eng dir s)) =
       test_loss_all (ckpt s) @ [fst (fst (eng False c1))]"
proof -
  let ?c0 = "(ckpt s)\<lparr>epoch := epoch (ckpt s) + 1\<rparr>"
  let ?c1 = "fst (train_pass eng ?c0)"
  have "epoch ?c0 = epoch (ckpt s) + 1" "epoch ?c1 = epoch (ckpt s) + 1"
    by (simp_all add: train_pass_fields)
  moreover have "train_loss_all (ckpt (epoch_step eng dir s)) =
       train_loss_all (ckpt s) @ [fst (fst (eng True ?c0))]"
    by (simp add: epoch_step_simps(1) epoch_passes_fields(1))
  moreover have "test_loss_all (ckpt (epoch_step eng dir s)) =
       test_loss_all (ckpt s) @ [fst (fst (eng False ?c1))]"
    by (simp add: epoch_step_simps(1) epoch_passes_fields(3,5))
  ultimately show ?thesis by blast
qed

lemma Min_insert_snoc:
  "Min (insert b (set (ys @ [l]))) = min l (Min (insert b (set ys)))" for b l :: real
proof -
  have "insert b (set (ys @ [l])) = insert l (insert b (set ys))" by auto
  then show ?thesis by (simp del: insert_commute)
qed

lemma demo_fresh:
  "epoch (ckpt (init_loop demo_checkpoint)) = 0"
  "best_epoch (init_loop demo_checkpoint) = 0"
  "best_loss (init_loop demo_checkpoint) = 100"
  "test_loss_all (ckpt (init_loop demo_checkpoint)) = []"
  "test_rmetric_all (ckpt (init_loop demo_checkpoint)) = []"
  "trace (init_loop demo_checkpoint) = []"
  unfolding demo_checkpoint_def by (rule fresh_init)+

lemma best_loss_step:
  "best_loss (epoch_step eng dir s) = min (best_loss s) (loss (ckpt (epoch_step eng dir s)))"
  by (simp add: epoch_step_simps min_def)

lemma best_written_iff:
  "(\<exists>c. TorchSave c (path_join dir ''best.pt'') \<in> set (epoch_events eng dir s)) \<longleftrightarrow>
     loss (ckpt (epoch_step eng dir s)) < best_loss s"
  by (simp add: epoch_events_eq epoch_step_simps(1) path_join_def)

lemma best_loss_iterates:
  "best_loss ((epoch_step eng dir ^^ n) s) =
     Min (insert (best_loss s)
       (set (drop (length (test_loss_all (ckpt s)))
          (test_loss_all (ckpt ((epoch_step eng dir ^^ n) s))))))"
proof (induction n)
  case 0
  show ?case by simp
next
  case (Suc n)
  let ?t = "(epoch_step eng dir ^^ n) s"
  let ?k = "length (test_loss_all (ckpt s))"
  let ?l = "loss (ckpt (epoch_step eng dir ?t))"
  have len: "length (test_loss_all (ckpt ?t)) = ?k + n"
    using iterates_lengths [where eng = eng and dir = dir and n = n and s = s] by simp
  have "drop ?k (test_loss_all (ckpt (epoch_step eng dir ?t))) =
      drop ?k (test_loss_all (ckpt ?t)) @ [?l]"
    by (subst test_loss_step) (simp add: len)
  then have "Min (insert (best_loss s)
      (set (drop ?k (test_loss_all (ckpt (epoch_step eng dir ?t)))))) =
      min ?l (Min (insert (best_loss s) (set (drop ?k (test_loss_all (ckpt ?t))))))"
    by (simp only: Min_insert_snoc)
  also have "\<dots> = min ?l (best_loss ?t)"
    by (simp only: Suc.IH)
  also have "\<dots> = best_loss (epoch_step eng dir ?t)"
    by (simp add: best_loss_step min.commute)
  finally show ?case by simp
qed

lemma demo_step_loss:
  "loss (ckpt (epoch_step (demo_engine f) dir s)) = f (epoch (ckpt s) + 1)"
  by (simp add: epoch_step_simps(1) epoch_passes_fields(5) demo_engine_def train_pass_fields)

lemma epoch_loop_invariant:
  assumes "epoch_loop eng dbg pat md s = Inr s'" and "P s"
    and "\<And>t dir. P t \<Longrightarrow> P (epoch_step eng dir t)"
  shows "P s'"
  using assms
proof (induction eng dbg pat md s rule: epoch_loop.induct)
  case (1 eng dbg pat md s)
  note step = "1.prems"(3)
  show ?case
  proof (cases "continue_cond pat s")
    case False
    with "1.prems"(1,2) show ?thesis by (subst (asm) epoch_loop.simps) simp
  next
    case True
    with "1.prems"(1) obtain t where b: "epoch_body eng md s = Inr t"
      and r: "(if dbg then Inr t else epoch_loop eng dbg pat md t) = Inr s'"
      by (subst (asm) epoch_loop.simps) (auto split: sum.splits)
    from b obtain dir where t: "t = epoch_step eng dir s"
      by (cases md) (auto simp: epoch_body_def)
    have pt: "P t" unfolding t by (rule step) (rule "1.prems"(2))
    show ?thesis
    proof (cases dbg)
      case True
      with r pt show ?thesis by simp
    next
      case False
      with r have "epoch_loop eng dbg pat md t = Inr s'" by simp
      from "1.IH" [OF \<open>continue_cond pat s\<close> b False this pt step] show ?thesis .
    qed
  qed
qed

lemma epoch_events_no_dump: "ev \<in> set (epoch_events eng dir s) \<Longrightarrow> \<not> is_JsonDump ev"
  by (auto simp: epoch_events_eq split: if_splits)

lemma epoch_loop_no_dump:
  assumes "epoch_loop eng dbg pat md (init_loop c) = Inr s'"
  shows "\<forall>ev\<in>set (trace s'). \<not> is_JsonDump ev"
  by (rule epoch_loop_invariant [OF assms, where P = "\<lambda>t. \<forall>ev\<in>set (trace t). \<not> is_JsonDump ev"])
    (auto simp: epoch_step_simps(4) init_loop_def dest: epoch_events_no_dump)

lemma history_ok_step: "history_ok t \<Longrightarrow> history_ok (epoch_step eng dir t)"
  by (simp add: history_ok_def epoch_step_simps epoch_epoch_passes epoch_passes_fields(4))

lemma history_ok_fresh: "history_ok (init_loop (new_checkpoint m opt crit))"
  by (simp add: history_ok_def fresh_init)

lemma getitem_best:
  assumes "history_ok t" and "1 \<le> epoch (ckpt t)"
  shows "\<exists>r. list_getitem (test_rmetric_all (ckpt t)) (best_epoch t - 1) = Inr r"
proof (cases "best_epoch t = 0")
  case True
  with assms show ?thesis by (simp add: history_ok_def list_getitem_def)
next
  case False
  with assms show ?thesis by (simp add: history_ok_def list_getitem_def)
qed

lemma build_configs_rmetric:
  "list_getitem (test_rmetric_all (ckpt s)) (best_epoch s - 1) = Inr r \<Longrightarrow>
     \<exists>cfg. build_configs a tok now s = Inr cfg \<and> map_of cfg ''rmetric'' = Some (PFloat r)"
  by (simp add: build_configs_def)

lemma create_checkpoint_Inr:
  "create_checkpoint w a = Inr c \<Longrightarrow> \<exists>m opt crit. c = new_checkpoint m opt crit"
  by (auto simp: create_checkpoint_def Let_def split: if_splits)

lemma fresh_loop_result:
  assumes "create_checkpoint w a = Inr c" and "0 \<le> pat"
  shows "\<exists>s. epoch_loop eng dbg pat (Some dir) (init_loop c) = Inr s \<and> history_ok s \<and>
     1 \<le> epoch (ckpt s) \<and> (dbg \<longrightarrow> s = epoch_step eng dir (init_loop c)) \<and>
     (\<forall>ev\<in>set (trace s). \<not> is_JsonDump ev)"
proof -
  from create_checkpoint_Inr [OF assms(1)] obtain m opt crit
    where c: "c = new_checkpoint m opt crit" by blast
  have cond: "continue_cond pat (init_loop c)"
    using assms(2) by (simp add: continue_cond_def c fresh_init)
  from loop_result_iterate [of eng dbg pat dir "init_loop c"] cond obtain n where
    n: "epoch_loop eng dbg pat (Some dir) (init_loop c) = Inr ((epoch_step eng dir ^^ n) (init_loop c))"
      "1 \<le> n" "dbg \<longrightarrow> n \<le> 1"
    by blast
  let ?s = "(epoch_step eng dir ^^ n) (init_loop c)"
  have h: "history_ok ?s"
    by (rule epoch_loop_invariant [OF n(1)]) (simp_all add: c history_ok_fresh history_ok_step)
  have e: "epoch (ckpt ?s) = int n"
    using iterates_lengths [where eng = eng and dir = dir and n = n and s = "init_loop c"]
    by (simp add: c fresh_init)
  have d: "?s = epoch_step eng dir (init_loop c)" if dbg
  proof -
    from that n(2,3) have "n = 1" by simp
    then show ?thesis by simp
  qed
  have t: "\<forall>ev\<in>set (trace ?s). \<not> is_JsonDump ev"
    by (rule epoch_loop_no_dump [OF n(1)])
  from n(1,2) h e d t show ?thesis by auto
qed

lemma main_fresh_ok:
  assumes "\<not> resume a" and "resolve_names w a = Inr vars"
    and "create_checkpoint w a = Inr c" and "0 \<le> patience a"
  shows "\<exists>s cfg dir.
     model_dir vars = Some dir \<and>
     epoch_loop (engine w) (debug a) (patience a) (Some dir) (init_loop c) = Inr s \<and>
     (debug a \<longrightarrow> s = epoch_step (engine w) dir (init_loop c)) \<and>
     1 \<le> epoch (ckpt s) \<and>
     (\<forall>ev\<in>set (trace s). \<not> is_JsonDump ev) \<and>
     main w a = (trace s @ [JsonDump cfg (path_join dir ''configs.json'')], Inr ())"
proof -
  from assms(1,2) have "fresh_names w a = Inr vars" by (simp add: resolve_names_def)
  from fresh_names_Inr [OF this] obtain tok dir where
    v: "mname vars = Some tok" "model_dir vars = Some dir" by blast
  from fresh_loop_result [OF assms(3,4), of "engine w" "debug a" dir] obtain s where
    s: "epoch_loop (engine w) (debug a) (patience a) (Some dir) (init_loop c) = Inr s"
      "history_ok s" "1 \<le> epoch (ckpt s)"
      "debug a \<longrightarrow> s = epoch_step (engine w) dir (init_loop c)"
      "\<forall>ev\<in>set (trace s). \<not> is_JsonDump ev"
    by blast
  from getitem_best [OF s(2,3)] obtain r where
    "list_getitem (test_rmetric_all (ckpt s)) (best_epoch s - 1) = Inr r" by blast
  from build_configs_rmetric [OF this] obtain cfg where
    cfg: "build_configs a tok (now_end w) s = Inr cfg" by blast
  have "main w a = (trace s @ [JsonDump cfg (path_join dir ''configs.json'')], Inr ())"
    using assms(1,2,3) v s(1) cfg by (simp add: main_def get_checkpoint_def)
  with v(2) s show ?thesis by blast
qed

lemma main_Inr_trace:
  assumes "main w a = (tr, Inr ())"
  shows "\<exists>evs cfg p. tr = evs @ [JsonDump cfg p] \<and> (\<forall>ev\<in>set evs. \<not> is_JsonDump ev)"
  using assms
  by (auto simp: main_def split: sum.splits dest: epoch_loop_no_dump)

lemma main_Inl_trace:
  assumes "main w a = (tr, Inl e)"
  shows "\<forall>ev\<in>set tr. \<not> is_JsonDump ev"
  using assms
  by (auto simp: main_def split: sum.splits dest: epoch_loop_no_dump)

lemma demo_names_debug:
  "resolve_names (demo_world f) (demo_args\<lparr>debug := d, patience := p\<rparr>) = Inr (demo_locals d)"
  by (simp add: resolve_names_def fresh_names_def demo_world_def demo_args_def gen_mname_def
      try_word_def demo_response_def list_getitem_def fresh_full_mname_def lr_tag_def
      demo_str_float_def str_int_def str_nat_simps digit_char_def path_join_def wsl_model_dir_def
      demo_debug_dir_def demo_dir_def demo_locals_def)

lemma demo_locals_dir: "model_dir (demo_locals d) = Some (if d then demo_debug_dir else demo_dir)"
  by (simp add: demo_locals_def)

lemma demo_create:
  "create_checkpoint (demo_world f) (demo_args\<lparr>debug := d, patience := p\<rparr>) = Inr demo_checkpoint"
  by (simp add: create_checkpoint_def demo_world_def demo_args_def demo_checkpoint_def)

lemma demo_world_sel:
  "engine (demo_world f) = demo_engine f" "now_end (demo_world f) = demo_time"
  by (simp_all add: demo_world_def)

lemma demo_args_sel:
  "debug (demo_args\<lparr>debug := d, patience := p\<rparr>) = d"
  "patience (demo_args\<lparr>debug := d, patience := p\<rparr>) = p"
  "resume (demo_args\<lparr>debug := d, patience := p\<rparr>) = False"
  by (simp_all add: demo_args_def)

lemma demo_step_rmetric:
  "test_rmetric_all (ckpt (epoch_step (demo_engine f) dir s)) = test_rmetric_all (ckpt s) @ [0.25]"
  by (simp add: epoch_step_simps(1) epoch_passes_fields(4) demo_engine_def)

lemma epoch_loop_stop: "\<not> continue_cond pat s \<Longrightarrow> epoch_loop eng dbg pat md s = Inr s"
  by (subst epoch_loop.simps) simp

lemma main_negative_patience:
  assumes "\<not> resume a" and "resolve_names w a = Inr vars"
    and "create_checkpoint w a = Inr c" and "patience a < 0"
  shows "main w a = ([], Inl IndexError)"
proof -
  from assms(1,2) have "fresh_names w a = Inr vars" by (simp add: resolve_names_def)
  from fresh_names_Inr [OF this] obtain tok dir where
    v: "mname vars = Some tok" "model_dir vars = Some dir" by blast
  from create_checkpoint_Inr [OF assms(3)] obtain m opt crit
    where c: "c = new_checkpoint m opt crit" by blast
  have "\<not> continue_cond (patience a) (init_loop c)"
    using assms(4) by (simp add: continue_cond_def c fresh_init)
  then have l: "epoch_loop (engine w) (debug a) (patience a) (model_dir vars) (init_loop c) =
      Inr (init_loop c)"
    by (rule epoch_loop_stop)
  have b: "build_configs a tok (now_end w) (init_loop c) = Inl IndexError"
    by (simp add: build_configs_def c fresh_init list_getitem_def)
  show ?thesis
    using assms(1,2,3) v l b by (simp add: main_def get_checkpoint_def c fresh_init)
qed


lemma demo_first_epoch:
  "epoch (ckpt (epoch_step (demo_engine f) dir (init_loop demo_checkpoint))) = 1"
  "loss (ckpt (epoch_step (demo_engine f) dir (init_loop demo_checkpoint))) = f 1"
  "test_rmetric_all (ckpt (epoch_step (demo_engine f) dir (init_loop demo_checkpoint))) = [0.25]"
  "best_epoch (epoch_step (demo_engine f) dir (init_loop demo_checkpoint)) =
     (if f 1 < 100 then 1 else 0)"
  by (simp_all add: epoch_epoch_step demo_step_loss demo_step_rmetric demo_fresh
      epoch_step_simps(3) demo_step_loss [unfolded epoch_step_simps(1)])

lemma demo_debug_main:
  assumes "0 \<le> p"
  shows "\<exists>cfg. main (demo_world f) (demo_args\<lparr>debug := True, patience := p\<rparr>) =
     (trace (epoch_step (demo_engine f) demo_debug_dir (init_loop demo_checkpoint)) @
        [JsonDump cfg (path_join demo_debug_dir ''configs.json'')], Inr ())"
  using main_fresh_ok [where a = "demo_args\<lparr>debug := True, patience := p\<rparr>"
      and w = "demo_world f" and c = demo_checkpoint, OF _ demo_names_debug demo_create] assms
  by (auto simp: demo_args_sel demo_world_sel demo_locals_dir)

subsection \<open>The name token\<close>



subsection \<open>The run name\<close>

text \<open>
  Claim C8, as amended. For every combination of the hyperparameters and every string
  name token, the run name built from the source is the concatenation, in the fixed
  order of the specification, of the optional debug prefix, the dataset name, the
  column name, the learning-rate, batch-size and optimizer tag, the optional pretrained
  tag, the optional balanced tag, the network and depth tag, the optional wildcat
  block and the name token, where a disabled optional component contributes the empty
  string. Hence every enabled tag occurs in the name: the debug prefix at its start,
  the pretrained, balanced and wildcat tags inside it, and the name token at its end.
\<close>

theorem run_name_order:
  "fresh_full_mname fmt a (PStr tok) = Inr (spec_run_name fmt a tok) \<and>
   (debug a \<longrightarrow> prefix ''debug_'' (spec_run_name fmt a tok)) \<and>
   (pretrained a \<longrightarrow> sublist ''_pre'' (spec_run_name fmt a tok)) \<and>
   (balanced a \<longrightarrow> sublist ''_bal'' (spec_run_name fmt a tok)) \<and>
   (wildcat a \<longrightarrow> sublist (wildcat_tag fmt a) (spec_run_name fmt a tok)) \<and>
   suffix (''_'' @ tok) (spec_run_name fmt a tok)"
proof -
  let ?head = "opt_tag (debug a) ''debug_'' @ data a @ ''_'' @ col_name a @ ''_'' @ lr_tag fmt a"
  have sub: "sublist t (p @ t @ q)" for t p q :: string
    by (rule sublist_appendI)
  have 1: "fresh_full_mname fmt a (PStr tok) = Inr (spec_run_name fmt a tok)"
    by (simp add: fresh_full_mname_def spec_run_name_def opt_tag_def lr_tag_def wildcat_tag_def)
  have 2: "prefix ''debug_'' (spec_run_name fmt a tok)" if "debug a"
    using that by (simp add: spec_run_name_def opt_tag_def)
  have 3: "sublist ''_pre'' (spec_run_name fmt a tok)" if "pretrained a"
    using that sub [of "''_pre''" ?head]
    by (simp add: spec_run_name_def opt_tag_def lr_tag_def)
  have 4: "sublist ''_bal'' (spec_run_name fmt a tok)" if "balanced a"
    using that sub [of "''_bal''" "?head @ opt_tag (pretrained a) ''_pre''"]
    by (simp add: spec_run_name_def opt_tag_def lr_tag_def)
  have 5: "sublist (wildcat_tag fmt a) (spec_run_name fmt a tok)" if "wildcat a"
    using that
      sub [of "wildcat_tag fmt a"
        "?head @ opt_tag (pretrained a) ''_pre'' @ opt_tag (balanced a) ''_bal'' @ ''_'' @
         network a @ str_int (depth a)" "''_'' @ tok"]
    by (simp add: spec_run_name_def opt_tag_def lr_tag_def wildcat_tag_def)
  have 6: "suffix (''_'' @ tok) (spec_run_name fmt a tok)"
    by (simp add: spec_run_name_def suffix_def)
  from 1 2 3 4 5 6 show ?thesis by blast
qed

theorem run_name_order_witness:
  "fresh_full_mname demo_str_float
     (demo_args\<lparr>debug := True, pretrained := True, balanced := True, wildcat := True\<rparr>)
     (PStr ''apple'') =
     Inr ''debug_rsna_Pneumonia_lr0.001_bs64_adam_pre_bal_densenet121_wildcat_maps1_alpha0.7_k1_apple'' \<and>
   prefix ''debug_'' (spec_run_name demo_str_float
     (demo_args\<lparr>debug := True, pretrained := True, balanced := True, wildcat := True\<rparr>) ''apple'') \<and>
   sublist ''_pre'' (spec_run_name demo_str_float
     (demo_args\<lparr>debug := True, pretrained := True, balanced := True, wildcat := True\<rparr>) ''apple'') \<and>
   sublist ''_bal'' (spec_run_name demo_str_float
     (demo_args\<lparr>debug := True, pretrained := True, balanced := True, wildcat := True\<rparr>) ''apple'') \<and>
   sublist ''_wildcat_maps1_alpha0.7_k1'' (spec_run_name demo_str_float
     (demo_args\<lparr>debug := True, pretrained := True, balanced := True, wildcat := True\<rparr>) ''apple'')"
proof -
  let ?a = "demo_args\<lparr>debug := True, pretrained := True, balanced := True, wildcat := True\<rparr>"
  have n: "spec_run_name demo_str_float ?a ''apple'' =
      ''debug_rsna_Pneumonia_lr0.001_bs64_adam_pre_bal_densenet121_wildcat_maps1_alpha0.7_k1_apple''"
    by (simp add: spec_run_name_def opt_tag_def demo_args_def demo_str_float_def str_int_def
        str_nat_simps digit_char_def)
  have t: "wildcat_tag demo_str_float ?a = ''_wildcat_maps1_alpha0.7_k1''"
    by (simp add: wildcat_tag_def demo_args_def demo_str_float_def str_int_def
        str_nat_simps digit_char_def)
  have f: "debug ?a" "pretrained ?a" "balanced ?a" "wildcat ?a"
    by (simp_all add: demo_args_def)
  show ?thesis
    using run_name_order [of demo_str_float ?a "''apple''"] f
    unfolding n t by simp
qed

text \<open>
  Claim C8 as stated also says that a disabled tag never occurs in the name as a
  substring. It does whenever another component carries it: with the wildcat head and
  the pretrained tag both disabled, a dataset called \<open>wsl_wildcat_maps1_alpha0.7_k1\<close>
  and a column called \<open>is_present\<close> give a name that contains the wildcat block of
  these very arguments and the pretrained tag \<open>_pre\<close>.
\<close>

theorem run_name_disabled_tag_counterexample:
  "\<not> wildcat (demo_args\<lparr>data := ''wsl_wildcat_maps1_alpha0.7_k1'', col_name := ''is_present''\<rparr>) \<and>
   \<not> pretrained (demo_args\<lparr>data := ''wsl_wildcat_maps1_alpha0.7_k1'', col_name := ''is_present''\<rparr>) \<and>
   fresh_full_mname demo_str_float
     (demo_args\<lparr>data := ''wsl_wildcat_maps1_alpha0.7_k1'', col_name := ''is_present''\<rparr>)
     (PStr ''apple'') =
     Inr ''wsl_wildcat_maps1_alpha0.7_k1_is_present_lr0.001_bs64_adam_densenet121_apple'' \<and>
   wildcat_tag demo_str_float
     (demo_args\<lparr>data := ''wsl_wildcat_maps1_alpha0.7_k1'', col_name := ''is_present''\<rparr>) =
     ''_wildcat_maps1_alpha0.7_k1'' \<and>
   sublist ''_wildcat_maps1_alpha0.7_k1''
     ''wsl_wildcat_maps1_alpha0.7_k1_is_present_lr0.001_bs64_adam_densenet121_apple'' \<and>
   sublist ''_pre''
     ''wsl_wildcat_maps1_alpha0.7_k1_is_present_lr0.001_bs64_adam_densenet121_apple''"
proof -
  have s1: "sublist ''_wildcat_maps1_alpha0.7_k1''
     (''wsl'' @ ''_wildcat_maps1_alpha0.7_k1'' @ ''_is_present_lr0.001_bs64_adam_densenet121_apple'')"
    by (rule sublist_appendI)
  have s2: "sublist ''_pre''
     (''wsl_wildcat_maps1_alpha0.7_k1_is'' @ ''_pre'' @ ''sent_lr0.001_bs64_adam_densenet121_apple'')"
    by (rule sublist_appendI)
  show ?thesis
    using s1 s2
    by (simp add: demo_args_def fresh_full_mname_def lr_tag_def wildcat_tag_def
        demo_str_float_def str_int_def str_nat_simps digit_char_def)
qed

subsection \<open>The optimizer\<close>

text \<open>
  Claim C7. On a fresh run, creating the checkpoint raises the error for an unsupported
  optimizer (in the source a \<open>ValueError\<close> with the message \<open>... is not supported\<close>)
  for every optimizer name other than \<open>sgd\<close> and \<open>adam\<close>, and \<open>main\<close> then ends with
  this error before any epoch has run: nothing has been written. For \<open>sgd\<close> and
  \<open>adam\<close> the checkpoint is created and \<open>main\<close> never ends with this error.
\<close>

theorem unsupported_optimizer:
  "(optim a \<noteq> ''sgd'' \<and> optim a \<noteq> ''adam'' \<longrightarrow>
      create_checkpoint w a = Inl (ValueError (optim a @ '' is not supported'')) \<and>
      (\<not> resume a \<and> resolve_names w a = Inr vars \<longrightarrow>
         main w a = ([], Inl (ValueError (optim a @ '' is not supported''))))) \<and>
   (optim a = ''sgd'' \<or> optim a = ''adam'' \<longrightarrow>
      (\<exists>c. create_checkpoint w a = Inr c) \<and> snd (main w a) \<noteq> Inl (ValueError msg))"
proof -
  have 1: "create_checkpoint w a = Inl (ValueError (optim a @ '' is not supported''))"
    if "optim a \<noteq> ''sgd'' \<and> optim a \<noteq> ''adam''"
    using that by (simp add: create_checkpoint_def Let_def)
  have 2: "main w a = ([], Inl (ValueError (optim a @ '' is not supported'')))"
    if "optim a \<noteq> ''sgd'' \<and> optim a \<noteq> ''adam''" "\<not> resume a" "resolve_names w a = Inr vars"
  proof -
    from that(2,3) have "fresh_names w a = Inr vars" by (simp add: resolve_names_def)
    then obtain tok where "mname vars = Some tok" using fresh_names_Inr by blast
    then show ?thesis
      using that 1 by (simp add: main_def get_checkpoint_def)
  qed
  have 3: "\<exists>c. create_checkpoint w a = Inr c" if "optim a = ''sgd'' \<or> optim a = ''adam''"
    using that by (auto simp: create_checkpoint_def Let_def)
  from 1 2 3 main_not_ValueError [of a w msg] show ?thesis by blast
qed

theorem unsupported_optimizer_witness:
  "main (demo_world (\<lambda>e. 1)) (demo_args\<lparr>optim := ''rmsprop''\<rparr>) =
     ([], Inl (ValueError ''rmsprop is not supported'')) \<and>
   create_checkpoint (demo_world (\<lambda>e. 1)) (demo_args\<lparr>optim := ''rmsprop''\<rparr>) =
     Inl (ValueError ''rmsprop is not supported'') \<and>
   (\<exists>c. create_checkpoint (demo_world (\<lambda>e. 1)) demo_args = Inr c) \<and>
   snd (main (demo_world (\<lambda>e. 1)) demo_args) \<noteq> Inl (ValueError ''adam is not supported'')"
proof -
  let ?vars = "\<lparr>full_mname = ''rsna_Pneumonia_lr0.001_bs64_'' @ ''rmsprop'' @ ''_densenet121_apple'',
      mname = Some (PStr ''apple''),
      model_dir = Some (''/mnt/out/models/rsna_Pneumonia_lr0.001_bs64_'' @ ''rmsprop'' @
        ''_densenet121_apple'')\<rparr>"
  have n: "resolve_names (demo_world (\<lambda>e. 1)) (demo_args\<lparr>optim := ''rmsprop''\<rparr>) = Inr ?vars"
    by (rule demo_names)
  have o: "optim (demo_args\<lparr>optim := ''rmsprop''\<rparr>) = ''rmsprop''"
    "\<not> resume (demo_args\<lparr>optim := ''rmsprop''\<rparr>)" "optim demo_args = ''adam''"
    by (simp_all add: demo_args_def)
  show ?thesis
    using
      unsupported_optimizer [where a = "demo_args\<lparr>optim := ''rmsprop''\<rparr>"
        and w = "demo_world (\<lambda>e. 1)" and vars = ?vars]
      unsupported_optimizer [where a = demo_args and w = "demo_world (\<lambda>e. 1)"
        and msg = "''adam is not supported''"]
    unfolding n o by (simp add: demo_args_def)
qed

subsection \<open>Resuming\<close>

text \<open>
  Claim C10. Every call of \<open>main\<close> with \<open>resume\<close> set ends with a \<open>TypeError\<close>, raised
  while the names are resolved and so before a checkpoint is loaded and before anything
  is written, whatever the directory holds (also when exactly one run directory
  matches): the glob is a generator, and the source takes its length and subscripts
  it. Moreover the resume branch assigns neither the name token nor the model
  directory: even with a lookup that returned a list, both variables would be unbound
  afterwards, and reading either raises.
\<close>

theorem resume_TypeError:
  "(resume a \<longrightarrow>
      resolve_names w a = Inl TypeError \<and> main w a = ([], Inl TypeError)) \<and>
   (resume_names globber a = Inr vars \<longrightarrow>
      mname vars = None \<and> model_dir vars = None \<and>
      lookup_var (mname vars) = Inl UnboundLocalError \<and>
      lookup_var (model_dir vars) = Inl UnboundLocalError)"
proof -
  have 1: "resolve_names w a = Inl TypeError" if "resume a"
    using that by (simp add: resolve_names_def resume_glob_TypeError)
  have 2: "main w a = ([], Inl TypeError)" if "resume a"
    using that by (rule main_resume)
  have 3: "mname vars = None \<and> model_dir vars = None" if "resume_names globber a = Inr vars"
    using that by (auto simp: resume_names_def split: sum.splits if_splits)
  from 1 2 3 show ?thesis by auto
qed

theorem resume_TypeError_witness:
  "glob (demo_world (\<lambda>e. 1)) (''*'' @ name (demo_args\<lparr>resume := True\<rparr>)) =
     [''/mnt/out/models/rsna_Pneumonia_lr0.001_bs64_adam_densenet121_apple''] \<and>
   resolve_names (demo_world (\<lambda>e. 1)) (demo_args\<lparr>resume := True\<rparr>) = Inl TypeError \<and>
   main (demo_world (\<lambda>e. 1)) (demo_args\<lparr>resume := True\<rparr>) = ([], Inl TypeError) \<and>
   resume_names (\<lambda>pat. ListOf (glob (demo_world (\<lambda>e. 1)) pat)) (demo_args\<lparr>resume := True\<rparr>) =
     Inr \<lparr>full_mname = ''/mnt/out/models/rsna_Pneumonia_lr0.001_bs64_adam_densenet121_apple'',
          mname = None, model_dir = None\<rparr> \<and>
   lookup_var (mname \<lparr>full_mname = ''/mnt/out/models/rsna_Pneumonia_lr0.001_bs64_adam_densenet121_apple'',
          mname = None, model_dir = None\<rparr>) = Inl UnboundLocalError \<and>
   lookup_var (model_dir \<lparr>full_mname = ''/mnt/out/models/rsna_Pneumonia_lr0.001_bs64_adam_densenet121_apple'',
          mname = None, model_dir = None\<rparr>) = Inl UnboundLocalError"
proof -
  let ?a = "demo_args\<lparr>resume := True\<rparr>"
  let ?vars = "\<lparr>full_mname = ''/mnt/out/models/rsna_Pneumonia_lr0.001_bs64_adam_densenet121_apple'',
          mname = None, model_dir = None\<rparr>"
  have g: "glob (demo_world (\<lambda>e. 1)) (''*'' @ name ?a) =
     [''/mnt/out/models/rsna_Pneumonia_lr0.001_bs64_adam_densenet121_apple'']"
    by (simp add: demo_world_def)
  have r: "resume ?a" by simp
  have n: "resume_names (\<lambda>pat. ListOf (glob (demo_world (\<lambda>e. 1)) pat)) ?a = Inr ?vars"
    by (simp add: resume_names_def demo_world_def list_getitem_def)
  show ?thesis
    using resume_TypeError [where a = ?a and w = "demo_world (\<lambda>e. 1)"
        and globber = "\<lambda>pat. ListOf (glob (demo_world (\<lambda>e. 1)) pat)" and vars = ?vars]
      g r n
    by simp
qed

subsection \<open>The histories\<close>

text \<open>
  Claim C5. On a fresh run, after any number \<open>n\<close> of completed epochs each of the four
  history lists has length \<open>n\<close>, which is also the epoch counter; one epoch appends
  exactly one element to each of the four lists; and what the loop returns on a fresh
  checkpoint is the state after some number of completed epochs.
\<close>

theorem history_lengths:
  "length (train_loss_all
     (ckpt ((epoch_step eng dir ^^ n) (init_loop (new_checkpoint m opt crit))))) = n \<and>
   length (test_loss_all
     (ckpt ((epoch_step eng dir ^^ n) (init_loop (new_checkpoint m opt crit))))) = n \<and>
   length (train_rmetric_all
     (ckpt ((epoch_step eng dir ^^ n) (init_loop (new_checkpoint m opt crit))))) = n \<and>
   length (test_rmetric_all
     (ckpt ((epoch_step eng dir ^^ n) (init_loop (new_checkpoint m opt crit))))) = n \<and>
   epoch (ckpt ((epoch_step eng dir ^^ n) (init_loop (new_checkpoint m opt crit)))) = int n \<and>
   (\<exists>l1 r1 l2 r2.
      train_loss_all (ckpt (epoch_step eng dir s)) = train_loss_all (ckpt s) @ [l1] \<and>
      train_rmetric_all (ckpt (epoch_step eng dir s)) = train_rmetric_all (ckpt s) @ [r1] \<and>
      test_loss_all (ckpt (epoch_step eng dir s)) = test_loss_all (ckpt s) @ [l2] \<and>
      test_rmetric_all (ckpt (epoch_step eng dir s)) = test_rmetric_all (ckpt s) @ [r2]) \<and>
   (\<exists>j. epoch_loop eng dbg pat (Some dir) (init_loop (new_checkpoint m opt crit)) =
      Inr ((epoch_step eng dir ^^ j) (init_loop (new_checkpoint m opt crit))))"
proof -
  let ?s0 = "init_loop (new_checkpoint m opt crit)"
  have z: "epoch (ckpt ?s0) = 0" "train_loss_all (ckpt ?s0) = []" "test_loss_all (ckpt ?s0) = []"
    "train_rmetric_all (ckpt ?s0) = []" "test_rmetric_all (ckpt ?s0) = []"
    by (simp_all add: init_loop_def new_checkpoint_def)
  have a: "length (train_loss_all (ckpt ((epoch_step eng dir ^^ n) ?s0))) = n \<and>
     length (test_loss_all (ckpt ((epoch_step eng dir ^^ n) ?s0))) = n \<and>
     length (train_rmetric_all (ckpt ((epoch_step eng dir ^^ n) ?s0))) = n \<and>
     length (test_rmetric_all (ckpt ((epoch_step eng dir ^^ n) ?s0))) = n \<and>
     epoch (ckpt ((epoch_step eng dir ^^ n) ?s0)) = int n"
    using iterates_lengths [where eng = eng and dir = dir and n = n and s = ?s0]
    by (simp add: z)
  have b: "\<exists>l1 r1 l2 r2.
      train_loss_all (ckpt (epoch_step eng dir s)) = train_loss_all (ckpt s) @ [l1] \<and>
      train_rmetric_all (ckpt (epoch_step eng dir s)) = train_rmetric_all (ckpt s) @ [r1] \<and>
      test_loss_all (ckpt (epoch_step eng dir s)) = test_loss_all (ckpt s) @ [l2] \<and>
      test_rmetric_all (ckpt (epoch_step eng dir s)) = test_rmetric_all (ckpt s) @ [r2]"
    unfolding epoch_step_simps using epoch_passes_fields(1-4) [of eng "ckpt s"] by blast
  have c: "\<exists>j. epoch_loop eng dbg pat (Some dir) ?s0 = Inr ((epoch_step eng dir ^^ j) ?s0)"
    using loop_result_iterate [of eng dbg pat dir ?s0] by blast
  from a b c show ?thesis by simp
qed

subsection \<open>The gate of the loop\<close>

text \<open>
  Claim C1. A new epoch is attempted exactly when, at the head of the loop and so before
  the epoch counter is incremented, \<open>checkpoint.epoch - best_epoch \<le> patience\<close> and
  \<open>checkpoint.epoch < 500\<close> both hold: without the debug flag the loop returns the
  state after \<open>n\<close> epochs, where the condition held before each of them and fails
  after the last; with the debug flag the first test decides alone whether the one
  epoch is run. The body increments the epoch counter first: the training and the
  evaluation pass both see the incremented counter. In particular, with patience \<open>0\<close>
  on a fresh run, if the evaluation loss of epoch 1 improves on the sentinel \<open>100\<close>
  and that of epoch 2 does not improve on epoch 1, a second epoch is run and the loop
  stops after it, with \<open>best_epoch = 1\<close>.
\<close>

theorem epoch_loop_gate:
  "(\<exists>n. epoch_loop eng False pat (Some dir) s = Inr ((epoch_step eng dir ^^ n) s) \<and>
        (\<forall>i<n. continue_cond pat ((epoch_step eng dir ^^ i) s)) \<and>
        \<not> continue_cond pat ((epoch_step eng dir ^^ n) s)) \<and>
   epoch_loop eng True pat (Some dir) s =
     Inr (if continue_cond pat s then epoch_step eng dir s else s) \<and>
   (continue_cond pat s \<longleftrightarrow>
      epoch (ckpt s) - best_epoch s \<le> pat \<and> epoch (ckpt s) < 500) \<and>
   epoch (ckpt (epoch_step eng dir s)) = epoch (ckpt s) + 1 \<and>
   (\<exists>c0 c1. epoch c0 = epoch (ckpt s) + 1 \<and> epoch c1 = epoch (ckpt s) + 1 \<and>
      train_loss_all (ckpt (epoch_step eng dir s)) =
        train_loss_all (ckpt s) @ [fst (fst (eng True c0))] \<and>
      test_loss_all (ckpt (epoch_step eng dir s)) =
        test_loss_all (ckpt s) @ [fst (fst (eng False c1))]) \<and>
   ((\<forall>c. epoch c = 1 \<longrightarrow> fst (fst (eng False c)) = l1) \<and>
    (\<forall>c. epoch c = 2 \<longrightarrow> fst (fst (eng False c)) = l2) \<and> l1 < 100 \<and> l1 \<le> l2 \<longrightarrow>
      (\<exists>s'. epoch_loop eng False 0 (Some dir) (init_loop (new_checkpoint m opt crit)) = Inr s' \<and>
         epoch (ckpt s') = 2 \<and> best_epoch s' = 1 \<and> best_loss s' = l1 \<and>
         test_loss_all (ckpt s') = [l1, l2]))"
proof -
  note a = epoch_loop_iterates [of eng pat dir s]
  note b = epoch_loop_debug [of eng pat dir s]
  have c: "continue_cond pat s \<longleftrightarrow>
      epoch (ckpt s) - best_epoch s \<le> pat \<and> epoch (ckpt s) < 500"
    by (simp add: continue_cond_def)
  note d = epoch_epoch_step [of eng dir s]
  note e = passes_see_increment [of s eng dir]
  have f: "\<exists>s'. epoch_loop eng False 0 (Some dir) (init_loop (new_checkpoint m opt crit)) = Inr s' \<and>
         epoch (ckpt s') = 2 \<and> best_epoch s' = 1 \<and> best_loss s' = l1 \<and>
         test_loss_all (ckpt s') = [l1, l2]"
    if "(\<forall>c. epoch c = 1 \<longrightarrow> fst (fst (eng False c)) = l1) \<and>
      (\<forall>c. epoch c = 2 \<longrightarrow> fst (fst (eng False c)) = l2) \<and> l1 < 100 \<and> l1 \<le> l2"
    using that by (intro patience0_scenario) auto
  from a b c d e f show ?thesis by blast
qed

theorem epoch_loop_gate_witness:
  "(\<exists>s'. epoch_loop (demo_engine (\<lambda>e. if e = 1 then 0.5 else 0.6)) False 0
        (Some ''/mnt/out/models/run'')
        (init_loop (new_checkpoint () (Adam 0.001 0.9 0.999) (BCEWithLogitsLoss None))) = Inr s' \<and>
      epoch (ckpt s') = 2 \<and> best_epoch s' = 1 \<and> best_loss s' = 0.5 \<and>
      test_loss_all (ckpt s') = [0.5, 0.6]) \<and>
   epoch_loop (demo_engine (\<lambda>e. if e = 1 then 0.5 else 0.6)) True 0
        (Some ''/mnt/out/models/run'')
        (init_loop (new_checkpoint () (Adam 0.001 0.9 0.999) (BCEWithLogitsLoss None))) =
     Inr (epoch_step (demo_engine (\<lambda>e. if e = 1 then 0.5 else 0.6)) ''/mnt/out/models/run''
        (init_loop (new_checkpoint () (Adam 0.001 0.9 0.999) (BCEWithLogitsLoss None))))"
proof -
  let ?eng = "demo_engine (\<lambda>e. if e = 1 then 0.5 else 0.6)"
  let ?s0 = "init_loop (new_checkpoint () (Adam 0.001 0.9 0.999) (BCEWithLogitsLoss None))"
  have h: "(\<forall>c. epoch c = 1 \<longrightarrow> fst (fst (?eng False c)) = 0.5) \<and>
    (\<forall>c. epoch c = 2 \<longrightarrow> fst (fst (?eng False c)) = 0.6) \<and> (0.5::real) < 100 \<and> (0.5::real) \<le> 0.6"
    by (simp add: demo_engine_def)
  have c: "continue_cond 0 ?s0"
    by (simp add: continue_cond_def fresh_init)
  show ?thesis
    using epoch_loop_gate [where eng = ?eng and pat = 0 and dir = "''/mnt/out/models/run''"
        and s = ?s0 and ?l1.0 = "0.5" and ?l2.0 = "0.6" and m = "()"
        and opt = "Adam 0.001 0.9 0.999" and crit = "BCEWithLogitsLoss None"] h c
    by simp
qed

subsection \<open>The best loss\<close>

text \<open>
  Claim C4, as amended. From any starting checkpoint, fresh or loaded, \<open>best_loss\<close> does
  not increase over an epoch, and after every completed epoch it is the minimum of
  the loss the run started with (the sentinel \<open>100\<close> on a fresh run) and the evaluation
  losses of the epochs run since. The best snapshot is written in an epoch exactly when
  the evaluation loss of that epoch, the last element of \<open>test_loss_all\<close>, is strictly
  below the best loss before it; \<open>best_loss\<close> and \<open>best_epoch\<close> are assigned then, to the
  loss and the number of that epoch, and are left as they are otherwise.
\<close>

theorem best_loss_tracking:
  "best_loss (epoch_step eng dir s) \<le> best_loss s \<and>
   best_loss (epoch_step eng dir s) = min (best_loss s) (loss (ckpt (epoch_step eng dir s))) \<and>
   loss (ckpt (epoch_step eng dir s)) = last (test_loss_all (ckpt (epoch_step eng dir s))) \<and>
   trace (epoch_step eng dir s) = trace s @ epoch_events eng dir s \<and>
   ((\<exists>c. TorchSave c (path_join dir ''best.pt'') \<in> set (epoch_events eng dir s)) \<longleftrightarrow>
      loss (ckpt (epoch_step eng dir s)) < best_loss s) \<and>
   (loss (ckpt (epoch_step eng dir s)) < best_loss s \<longrightarrow>
      best_loss (epoch_step eng dir s) = loss (ckpt (epoch_step eng dir s)) \<and>
      best_epoch (epoch_step eng dir s) = epoch (ckpt (epoch_step eng dir s))) \<and>
   (\<not> loss (ckpt (epoch_step eng dir s)) < best_loss s \<longrightarrow>
      best_loss (epoch_step eng dir s) = best_loss s \<and>
      best_epoch (epoch_step eng dir s) = best_epoch s) \<and>
   best_loss ((epoch_step eng dir ^^ n) s) =
     Min (insert (best_loss s)
       (set (drop (length (test_loss_all (ckpt s)))
          (test_loss_all (ckpt ((epoch_step eng dir ^^ n) s)))))) \<and>
   best_loss ((epoch_step eng dir ^^ n) (init_loop (new_checkpoint m opt crit))) =
     Min (insert 100
       (set (test_loss_all
          (ckpt ((epoch_step eng dir ^^ n) (init_loop (new_checkpoint m opt crit)))))))"
proof -
  let ?s' = "epoch_step eng dir s"
  have 1: "best_loss ?s' = min (best_loss s) (loss (ckpt ?s'))"
    by (rule best_loss_step)
  then have 2: "best_loss ?s' \<le> best_loss s" by simp
  have 3: "loss (ckpt ?s') = last (test_loss_all (ckpt ?s'))"
    by (subst test_loss_step) simp
  have 4: "trace ?s' = trace s @ epoch_events eng dir s"
    by (rule epoch_step_simps)
  note 5 = best_written_iff [of dir eng s]
  have 6: "best_loss ?s' = loss (ckpt ?s') \<and> best_epoch ?s' = epoch (ckpt ?s')"
    if "loss (ckpt ?s') < best_loss s"
    using that by (simp add: epoch_step_simps epoch_epoch_passes)
  have 7: "best_loss ?s' = best_loss s \<and> best_epoch ?s' = best_epoch s"
    if "\<not> loss (ckpt ?s') < best_loss s"
    using that by (simp add: epoch_step_simps)
  note 8 = best_loss_iterates [where eng = eng and dir = dir and n = n and s = s]
  have 9: "best_loss ((epoch_step eng dir ^^ n) (init_loop (new_checkpoint m opt crit))) =
     Min (insert 100
       (set (test_loss_all
          (ckpt ((epoch_step eng dir ^^ n) (init_loop (new_checkpoint m opt crit)))))))"
    using best_loss_iterates [where eng = eng and dir = dir and n = n
        and s = "init_loop (new_checkpoint m opt crit)"]
    by (simp add: fresh_init)
  from 1 2 3 4 5 6 7 8 9 show ?thesis by blast
qed

theorem best_loss_tracking_witness:
  "loss (ckpt (epoch_step (demo_engine improving_then_worse) demo_dir
      (init_loop demo_checkpoint))) = 0.5 \<and>
   best_loss (init_loop demo_checkpoint) = 100 \<and>
   (\<exists>c. TorchSave c (path_join demo_dir ''best.pt'') \<in>
      set (epoch_events (demo_engine improving_then_worse) demo_dir
        (init_loop demo_checkpoint))) \<and>
   best_loss (epoch_step (demo_engine improving_then_worse) demo_dir
      (init_loop demo_checkpoint)) = 0.5 \<and>
   best_epoch (epoch_step (demo_engine improving_then_worse) demo_dir
      (init_loop demo_checkpoint)) = 1 \<and>
   loss (ckpt (epoch_step (demo_engine improving_then_worse) demo_dir
     (epoch_step (demo_engine improving_then_worse) demo_dir
        (init_loop demo_checkpoint)))) = 0.6 \<and>
   \<not> (\<exists>c. TorchSave c (path_join demo_dir ''best.pt'') \<in>
      set (epoch_events (demo_engine improving_then_worse) demo_dir
        (epoch_step (demo_engine improving_then_worse) demo_dir
          (init_loop demo_checkpoint)))) \<and>
   best_loss (epoch_step (demo_engine improving_then_worse) demo_dir
     (epoch_step (demo_engine improving_then_worse) demo_dir
        (init_loop demo_checkpoint))) = 0.5 \<and>
   best_epoch (epoch_step (demo_engine improving_then_worse) demo_dir
     (epoch_step (demo_engine improving_then_worse) demo_dir
        (init_loop demo_checkpoint))) = 1"
proof -
  let ?eng = "demo_engine improving_then_worse"
  let ?s0 = "init_loop demo_checkpoint"
  let ?s1 = "epoch_step ?eng demo_dir ?s0"
  let ?s2 = "epoch_step ?eng demo_dir ?s1"
  have e1: "epoch (ckpt ?s1) = 1" by (simp add: epoch_epoch_step demo_fresh)
  have l1: "loss (ckpt ?s1) = 0.5"
    by (simp add: demo_step_loss demo_fresh improving_then_worse_def)
  have l2: "loss (ckpt ?s2) = 0.6"
    by (subst demo_step_loss) (simp add: e1 improving_then_worse_def)
  have b0: "best_loss ?s0 = 100" "best_epoch ?s0 = 0" by (simp_all add: demo_fresh)
  note w1 = best_loss_tracking [where eng = ?eng and dir = demo_dir and s = ?s0 and n = 0
      and m = "()" and opt = "Adam 0.001 0.9 0.999" and crit = "BCEWithLogitsLoss None"]
  from w1 have s1: "best_loss ?s1 = 0.5" "best_epoch ?s1 = 1"
    "\<exists>c. TorchSave c (path_join demo_dir ''best.pt'') \<in> set (epoch_events ?eng demo_dir ?s0)"
    unfolding l1 b0 e1 by simp_all
  note w2 = best_loss_tracking [where eng = ?eng and dir = demo_dir and s = ?s1 and n = 0
      and m = "()" and opt = "Adam 0.001 0.9 0.999" and crit = "BCEWithLogitsLoss None"]
  from w2 have s2: "best_loss ?s2 = 0.5" "best_epoch ?s2 = 1"
    "\<not> (\<exists>c. TorchSave c (path_join demo_dir ''best.pt'') \<in> set (epoch_events ?eng demo_dir ?s1))"
    unfolding l2 s1(1,2) by simp_all
  from l1 l2 b0 s1 s2 show ?thesis by simp
qed

text \<open>
  Claim C4 as stated has \<open>best_loss\<close> equal to the minimum of \<open>test_loss_all\<close> alone.
  On a fresh run whose first evaluation loss is \<open>150\<close> the best loss stays at the
  sentinel \<open>100\<close>, which is not the minimum of the history \<open>[150]\<close>.
\<close>

theorem best_loss_min_counterexample:
  "test_loss_all (ckpt (epoch_step (demo_engine never_improving) demo_dir
      (init_loop demo_checkpoint))) = [150] \<and>
   best_loss (epoch_step (demo_engine never_improving) demo_dir (init_loop demo_checkpoint)) =
     100 \<and>
   best_loss (epoch_step (demo_engine never_improving) demo_dir (init_loop demo_checkpoint)) \<noteq>
     Min (set (test_loss_all (ckpt (epoch_step (demo_engine never_improving) demo_dir
       (init_loop demo_checkpoint)))))"
proof -
  let ?s1 = "epoch_step (demo_engine never_improving) demo_dir (init_loop demo_checkpoint)"
  have l: "loss (ckpt ?s1) = 150" by (simp add: demo_step_loss never_improving_def)
  have t: "test_loss_all (ckpt ?s1) = [150]"
    by (subst test_loss_step) (simp add: l demo_fresh)
  have b: "best_loss ?s1 = 100"
    by (simp add: best_loss_step l demo_fresh)
  show ?thesis unfolding t b by simp
qed

subsection \<open>The metric of the final record\<close>

text \<open>
  Claim C2, as amended. The \<open>rmetric\<close> entry of the final record is read from the
  test-metric history at the Python index \<open>best_epoch - 1\<close>. For a best epoch between 1
  and the length of the history this is the metric of that epoch. For \<open>best_epoch = 0\<close>
  (no epoch improved on the starting loss) the index is \<open>-1\<close>, which Python counts from
  the end: the lookup gives the last recorded metric when the history is not empty and
  fails, with an \<open>IndexError\<close>, only when it is empty. On a fresh run that is the case
  exactly when the patience is negative, so that no epoch runs; with a patience of at
  least \<open>0\<close> a fresh run always ends with the record written.
\<close>

theorem rmetric_lookup:
  "(1 \<le> best_epoch s \<and> best_epoch s \<le> int (length (test_rmetric_all (ckpt s))) \<longrightarrow>
      (\<exists>cfg. build_configs a tok now s = Inr cfg \<and>
         map_of cfg ''rmetric'' =
           Some (PFloat (test_rmetric_all (ckpt s) ! nat (best_epoch s - 1))))) \<and>
   (best_epoch s = 0 \<and> test_rmetric_all (ckpt s) \<noteq> [] \<longrightarrow>
      (\<exists>cfg. build_configs a tok now s = Inr cfg \<and>
         map_of cfg ''rmetric'' = Some (PFloat (last (test_rmetric_all (ckpt s)))))) \<and>
   (best_epoch s = 0 \<and> test_rmetric_all (ckpt s) = [] \<longrightarrow>
      build_configs a tok now s = Inl IndexError) \<and>
   (\<not> resume a \<and> resolve_names w a = Inr vars \<and> create_checkpoint w a = Inr c \<and>
    0 \<le> patience a \<longrightarrow> snd (main w a) = Inr ()) \<and>
   (\<not> resume a \<and> resolve_names w a = Inr vars \<and> create_checkpoint w a = Inr c \<and>
    patience a < 0 \<longrightarrow> main w a = ([], Inl IndexError))"
proof -
  let ?R = "test_rmetric_all (ckpt s)"
  have 1: "\<exists>cfg. build_configs a tok now s = Inr cfg \<and>
      map_of cfg ''rmetric'' = Some (PFloat (?R ! nat (best_epoch s - 1)))"
    if "1 \<le> best_epoch s \<and> best_epoch s \<le> int (length ?R)"
  proof -
    from that have "list_getitem ?R (best_epoch s - 1) = Inr (?R ! nat (best_epoch s - 1))"
      by (simp add: list_getitem_def)
    then show ?thesis by (rule build_configs_rmetric)
  qed
  have 2: "\<exists>cfg. build_configs a tok now s = Inr cfg \<and>
      map_of cfg ''rmetric'' = Some (PFloat (last ?R))"
    if "best_epoch s = 0 \<and> ?R \<noteq> []"
  proof -
    from that have len: "Suc 0 \<le> length ?R" by (cases ?R) simp_all
    then have "nat (int (length ?R) - 1) = length ?R - 1" by simp
    with that len have "list_getitem ?R (best_epoch s - 1) = Inr (last ?R)"
      by (simp add: list_getitem_def last_conv_nth)
    then show ?thesis by (rule build_configs_rmetric)
  qed
  have 3: "build_configs a tok now s = Inl IndexError"
    if "best_epoch s = 0 \<and> ?R = []"
    using that by (simp add: build_configs_def list_getitem_def)
  have 4: "snd (main w a) = Inr ()"
    if "\<not> resume a \<and> resolve_names w a = Inr vars \<and> create_checkpoint w a = Inr c \<and>
      0 \<le> patience a"
    using main_fresh_ok [of a w vars c] that by auto
  have 5: "main w a = ([], Inl IndexError)"
    if "\<not> resume a \<and> resolve_names w a = Inr vars \<and> create_checkpoint w a = Inr c \<and>
      patience a < 0"
    using main_negative_patience [of a w vars c] that by auto
  from 1 2 3 4 5 show ?thesis by blast
qed

theorem rmetric_lookup_witness:
  "(\<exists>cfg. build_configs demo_args (PStr ''apple'') demo_time
       (epoch_step (demo_engine improving_then_worse) demo_dir (init_loop demo_checkpoint)) =
       Inr cfg \<and> map_of cfg ''rmetric'' = Some (PFloat 0.25)) \<and>
   (\<exists>cfg. build_configs demo_args (PStr ''apple'') demo_time
       (epoch_step (demo_engine never_improving) demo_dir (init_loop demo_checkpoint)) =
       Inr cfg \<and> map_of cfg ''rmetric'' = Some (PFloat 0.25)) \<and>
   build_configs demo_args (PStr ''apple'') demo_time (init_loop demo_checkpoint) =
     Inl IndexError \<and>
   snd (main (demo_world never_improving) (demo_args\<lparr>debug := False, patience := 0\<rparr>)) = Inr () \<and>
   main (demo_world never_improving) (demo_args\<lparr>debug := False, patience := - 1\<rparr>) =
     ([], Inl IndexError)"
proof -
  let ?s0 = "init_loop demo_checkpoint"
  let ?si = "epoch_step (demo_engine improving_then_worse) demo_dir ?s0"
  let ?sn = "epoch_step (demo_engine never_improving) demo_dir ?s0"
  have i: "best_epoch ?si = 1" "test_rmetric_all (ckpt ?si) = [0.25]"
    by (simp_all add: demo_first_epoch improving_then_worse_def)
  have n: "best_epoch ?sn = 0" "test_rmetric_all (ckpt ?sn) = [0.25]"
    by (simp_all add: demo_first_epoch never_improving_def)
  have z: "best_epoch ?s0 = 0" "test_rmetric_all (ckpt ?s0) = []"
    by (simp_all add: demo_fresh)
  note w1 = rmetric_lookup [where s = ?si and a = demo_args and tok = "PStr ''apple''"
      and now = demo_time and w = "demo_world never_improving"
      and vars = "demo_locals False" and c = demo_checkpoint]
  note w2 = rmetric_lookup [where s = ?sn and a = demo_args and tok = "PStr ''apple''"
      and now = demo_time and w = "demo_world never_improving"
      and vars = "demo_locals False" and c = demo_checkpoint]
  note w3 = rmetric_lookup [where s = ?s0 and a = demo_args and tok = "PStr ''apple''"
      and now = demo_time and w = "demo_world never_improving"
      and vars = "demo_locals False" and c = demo_checkpoint]
  note w4 = rmetric_lookup [where s = ?s0 and a = "demo_args\<lparr>debug := False, patience := 0\<rparr>"
      and w = "demo_world never_improving" and c = demo_checkpoint and vars = "demo_locals False",
      unfolded demo_names_debug demo_create]
  note w5 = rmetric_lookup [where s = ?s0 and a = "demo_args\<lparr>debug := False, patience := - 1\<rparr>"
      and w = "demo_world never_improving" and c = demo_checkpoint and vars = "demo_locals False",
      unfolded demo_names_debug demo_create]
  from w1 have 1: "\<exists>cfg. build_configs demo_args (PStr ''apple'') demo_time ?si = Inr cfg \<and>
      map_of cfg ''rmetric'' = Some (PFloat 0.25)"
    unfolding i by simp
  from w2 have 2: "\<exists>cfg. build_configs demo_args (PStr ''apple'') demo_time ?sn = Inr cfg \<and>
      map_of cfg ''rmetric'' = Some (PFloat 0.25)"
    unfolding n by simp
  from w3 have 3: "build_configs demo_args (PStr ''apple'') demo_time ?s0 = Inl IndexError"
    unfolding z by simp
  from w4 have 4: "snd (main (demo_world never_improving)
      (demo_args\<lparr>debug := False, patience := 0\<rparr>)) = Inr ()"
    by (simp add: demo_args_sel)
  from w5 have 5: "main (demo_world never_improving)
      (demo_args\<lparr>debug := False, patience := - 1\<rparr>) = ([], Inl IndexError)"
    by (simp add: demo_args_sel)
  from 1 2 3 4 5 show ?thesis by simp
qed

text \<open>
  Claim C2 as stated has the lookup fail whenever \<open>best_epoch = 0\<close>. On a fresh run
  with patience \<open>0\<close> whose only evaluation loss is \<open>150\<close>, above the sentinel, the loop
  stops after one epoch with \<open>best_epoch = 0\<close>; the lookup at index \<open>-1\<close> returns the
  metric of that epoch, \<open>0.25\<close>, and the run ends normally.
\<close>

theorem rmetric_last_counterexample:
  "epoch_loop (demo_engine never_improving) False 0 (Some demo_dir) (init_loop demo_checkpoint) =
     Inr (epoch_step (demo_engine never_improving) demo_dir (init_loop demo_checkpoint)) \<and>
   best_epoch (epoch_step (demo_engine never_improving) demo_dir (init_loop demo_checkpoint)) = 0 \<and>
   test_rmetric_all
     (ckpt (epoch_step (demo_engine never_improving) demo_dir (init_loop demo_checkpoint))) =
     [0.25] \<and>
   list_getitem
     (test_rmetric_all
        (ckpt (epoch_step (demo_engine never_improving) demo_dir (init_loop demo_checkpoint))))
     (best_epoch (epoch_step (demo_engine never_improving) demo_dir (init_loop demo_checkpoint)) - 1) =
     Inr 0.25 \<and>
   snd (main (demo_world never_improving) (demo_args\<lparr>debug := False, patience := 0\<rparr>)) = Inr ()"
proof -
  let ?eng = "demo_engine never_improving"
  let ?s0 = "init_loop demo_checkpoint"
  let ?s1 = "epoch_step ?eng demo_dir ?s0"
  have b: "best_epoch ?s1 = 0" by (simp add: demo_first_epoch never_improving_def)
  have r: "test_rmetric_all (ckpt ?s1) = [0.25]" by (rule demo_first_epoch)
  have c0: "continue_cond 0 ?s0" by (simp add: continue_cond_def demo_fresh)
  have c1: "\<not> continue_cond 0 ?s1" by (simp add: continue_cond_def demo_first_epoch(1) b)
  have "epoch_loop ?eng False 0 (Some demo_dir) ?s1 = Inr ?s1"
    using c1 by (rule epoch_loop_stop)
  then have l: "epoch_loop ?eng False 0 (Some demo_dir) ?s0 = Inr ?s1"
    using c0 by (subst epoch_loop_Some) simp
  have g: "list_getitem (test_rmetric_all (ckpt ?s1)) (best_epoch ?s1 - 1) = Inr 0.25"
    unfolding b r by (simp add: list_getitem_def)
  have m: "snd (main (demo_world never_improving) (demo_args\<lparr>debug := False, patience := 0\<rparr>)) =
      Inr ()"
    using main_fresh_ok [where a = "demo_args\<lparr>debug := False, patience := 0\<rparr>"
        and w = "demo_world never_improving" and c = demo_checkpoint,
        OF _ demo_names_debug demo_create]
    by (auto simp: demo_args_sel)
  from l b r g m show ?thesis by simp
qed

subsection \<open>Writing the final record\<close>

text \<open>
  Claim C3, as amended. The final record is serialized after the loop whichever way the
  loop ended, by its condition becoming false or by the debug break: a run that ends
  normally has written \<open>configs.json\<close> exactly once, as its last write; a run that ends
  with an error has not written it. On a fresh run with a patience of at least \<open>0\<close>
  the run ends normally, also with the debug flag set, where the loop returns the
  state after its first epoch.
\<close>

theorem configs_written:
  "(main w a = (tr, Inr ()) \<longrightarrow>
      (\<exists>evs cfg p. tr = evs @ [JsonDump cfg p] \<and> (\<forall>ev\<in>set evs. \<not> is_JsonDump ev))) \<and>
   (main w a = (tr, Inl e) \<longrightarrow> (\<forall>ev\<in>set tr. \<not> is_JsonDump ev)) \<and>
   (\<not> resume a \<and> resolve_names w a = Inr vars \<and> create_checkpoint w a = Inr c \<and>
    0 \<le> patience a \<longrightarrow>
      (\<exists>s cfg dir. model_dir vars = Some dir \<and>
         epoch_loop (engine w) (debug a) (patience a) (Some dir) (init_loop c) = Inr s \<and>
         (debug a \<longrightarrow> s = epoch_step (engine w) dir (init_loop c)) \<and>
         main w a = (trace s @ [JsonDump cfg (path_join dir ''configs.json'')], Inr ())))"
proof -
  note 1 = main_Inr_trace [of w a tr]
  note 2 = main_Inl_trace [of w a tr e]
  have 3: "\<exists>s cfg dir. model_dir vars = Some dir \<and>
         epoch_loop (engine w) (debug a) (patience a) (Some dir) (init_loop c) = Inr s \<and>
         (debug a \<longrightarrow> s = epoch_step (engine w) dir (init_loop c)) \<and>
         main w a = (trace s @ [JsonDump cfg (path_join dir ''configs.json'')], Inr ())"
    if "\<not> resume a \<and> resolve_names w a = Inr vars \<and> create_checkpoint w a = Inr c \<and>
      0 \<le> patience a"
    using main_fresh_ok [of a w vars c] that by blast
  from 1 2 3 show ?thesis by blast
qed

theorem configs_written_witness:
  "(\<exists>cfg. main (demo_world improving_then_worse) (demo_args\<lparr>debug := True, patience := 0\<rparr>) =
      (trace (epoch_step (demo_engine improving_then_worse) demo_debug_dir
         (init_loop demo_checkpoint)) @
       [JsonDump cfg (path_join demo_debug_dir ''configs.json'')], Inr ())) \<and>
   (\<exists>s cfg. epoch_loop (demo_engine improving_then_worse) False 0 (Some demo_dir)
        (init_loop demo_checkpoint) = Inr s \<and>
      main (demo_world improving_then_worse) (demo_args\<lparr>debug := False, patience := 0\<rparr>) =
        (trace s @ [JsonDump cfg (path_join demo_dir ''configs.json'')], Inr ())) \<and>
   (\<exists>evs cfg p.
      fst (main (demo_world improving_then_worse) (demo_args\<lparr>debug := True, patience := 0\<rparr>)) =
        evs @ [JsonDump cfg p] \<and> (\<forall>ev\<in>set evs. \<not> is_JsonDump ev)) \<and>
   list_all (\<lambda>ev. \<not> is_JsonDump ev)
     (fst (main (demo_world never_improving) (demo_args\<lparr>debug := False, patience := - 1\<rparr>)))"
proof -
  let ?w = "demo_world improving_then_worse"
  let ?ad = "demo_args\<lparr>debug := True, patience := 0\<rparr>"
  let ?a0 = "demo_args\<lparr>debug := False, patience := 0\<rparr>"
  let ?an = "demo_args\<lparr>debug := False, patience := - 1\<rparr>"
  note wd = configs_written [where w = ?w and a = ?ad and c = demo_checkpoint
      and tr = "fst (main ?w ?ad)" and vars = "demo_locals True",
      unfolded demo_names_debug demo_create]
  note w0 = configs_written [where w = ?w and a = ?a0 and c = demo_checkpoint
      and vars = "demo_locals False", unfolded demo_names_debug demo_create]
  note wn = configs_written [where w = "demo_world never_improving" and a = ?an
      and tr = "fst (main (demo_world never_improving) ?an)" and e = IndexError]
  from wd have 1: "\<exists>cfg. main ?w ?ad =
      (trace (epoch_step (demo_engine improving_then_worse) demo_debug_dir
         (init_loop demo_checkpoint)) @
       [JsonDump cfg (path_join demo_debug_dir ''configs.json'')], Inr ())"
    by (auto simp: demo_args_sel demo_world_sel demo_locals_dir)
  from w0 have 2: "\<exists>s cfg. epoch_loop (demo_engine improving_then_worse) False 0 (Some demo_dir)
        (init_loop demo_checkpoint) = Inr s \<and>
      main ?w ?a0 = (trace s @ [JsonDump cfg (path_join demo_dir ''configs.json'')], Inr ())"
    by (auto simp: demo_args_sel demo_world_sel demo_locals_dir)
  from 1 have "main ?w ?ad = (fst (main ?w ?ad), Inr ())" by auto
  with wd have 3: "\<exists>evs cfg p. fst (main ?w ?ad) = evs @ [JsonDump cfg p] \<and>
      (\<forall>ev\<in>set evs. \<not> is_JsonDump ev)"
    by blast
  have "main (demo_world never_improving) ?an = ([], Inl IndexError)"
    using main_negative_patience [where a = ?an and w = "demo_world never_improving"
        and c = demo_checkpoint, OF _ demo_names_debug demo_create]
    by (simp add: demo_args_sel)
  then have "main (demo_world never_improving) ?an =
      (fst (main (demo_world never_improving) ?an), Inl IndexError)" by simp
  with wn have 4: "list_all (\<lambda>ev. \<not> is_JsonDump ev) (fst (main (demo_world never_improving) ?an))"
    by (simp add: list_all_iff)
  from 1 2 3 4 show ?thesis by blast
qed

text \<open>
  Claim C3 as stated has the record not written after a debug break. In a debug run
  with patience \<open>0\<close> and an improving first epoch the loop stops after that epoch
  although its condition still holds, so by the break, and the run ends normally with
  \<open>configs.json\<close> as its last write.
\<close>

theorem configs_after_break_counterexample:
  "debug (demo_args\<lparr>debug := True, patience := 0\<rparr>) \<and>
   epoch_loop (demo_engine improving_then_worse) True 0 (Some demo_debug_dir)
     (init_loop demo_checkpoint) =
     Inr (epoch_step (demo_engine improving_then_worse) demo_debug_dir (init_loop demo_checkpoint)) \<and>
   continue_cond 0
     (epoch_step (demo_engine improving_then_worse) demo_debug_dir (init_loop demo_checkpoint)) \<and>
   snd (main (demo_world improving_then_worse) (demo_args\<lparr>debug := True, patience := 0\<rparr>)) =
     Inr () \<and>
   is_JsonDump
     (last (fst (main (demo_world improving_then_worse)
        (demo_args\<lparr>debug := True, patience := 0\<rparr>)))) \<and>
   event_path
     (last (fst (main (demo_world improving_then_worse)
        (demo_args\<lparr>debug := True, patience := 0\<rparr>)))) =
     path_join demo_debug_dir ''configs.json''"
proof -
  let ?eng = "demo_engine improving_then_worse"
  let ?s0 = "init_loop demo_checkpoint"
  let ?s1 = "epoch_step ?eng demo_debug_dir ?s0"
  have c0: "continue_cond 0 ?s0" by (simp add: continue_cond_def demo_fresh)
  have l: "epoch_loop ?eng True 0 (Some demo_debug_dir) ?s0 = Inr ?s1"
    using c0 by (simp add: epoch_loop_debug)
  have b: "best_epoch ?s1 = 1" by (simp add: demo_first_epoch improving_then_worse_def)
  have c1: "continue_cond 0 ?s1" by (simp add: continue_cond_def demo_first_epoch(1) b)
  from demo_debug_main [of 0 improving_then_worse] obtain cfg where
    m: "main (demo_world improving_then_worse) (demo_args\<lparr>debug := True, patience := 0\<rparr>) =
      (trace ?s1 @ [JsonDump cfg (path_join demo_debug_dir ''configs.json'')], Inr ())"
    by auto
  show ?thesis unfolding m using l c1 by (simp add: demo_args_sel)
qed

subsection \<open>Debug mode\<close>




end
